theory Spec2Isabelle
  imports Main "HOL-Library.Sublist"
begin

section \<open>Python values and strings\<close>

text \<open>
  The program is one Python class, \<open>GeminiChat\<close> (src/main.py). Its strings are modelled as
  \<open>string\<close>, read as UTF-8 bytes: the pictographs the program prints are the byte
  sequences below. \<open>str.startswith\<close> is \<open>prefix\<close>, which agrees on UTF-8 with the
  comparison of code points.
\<close>

definition cross_mark :: string where
  "cross_mark = [CHR 0xE2, CHR 0x9D, CHR 0x8C]"

definition check_mark :: string where
  "check_mark = [CHR 0xE2, CHR 0x9C, CHR 0x85]"

definition warning_sign :: string where
  "warning_sign = [CHR 0xE2, CHR 0x9A, CHR 0xA0, CHR 0xEF, CHR 0xB8, CHR 0x8F]"

definition hourglass :: string where
  "hourglass = [CHR 0xE2, CHR 0x8F, CHR 0xB3]"

definition outbox_tray :: string where
  "outbox_tray = [CHR 0xF0, CHR 0x9F, CHR 0x93, CHR 0xA4]"

definition clapper_board :: string where
  "clapper_board = [CHR 0xF0, CHR 0x9F, CHR 0x8E, CHR 0xAC]"

definition page_facing_up :: string where
  "page_facing_up = [CHR 0xF0, CHR 0x9F, CHR 0x93, CHR 0x84]"

definition file_folder :: string where
  "file_folder = [CHR 0xF0, CHR 0x9F, CHR 0x93, CHR 0x81]"

definition broom :: string where
  "broom = [CHR 0xF0, CHR 0x9F, CHR 0xA7, CHR 0xB9]"

definition robot_face :: string where
  "robot_face = [CHR 0xF0, CHR 0x9F, CHR 0xA4, CHR 0x96]"

definition speech_balloon :: string where
  "speech_balloon = [CHR 0xF0, CHR 0x9F, CHR 0x92, CHR 0xAC]"

definition bullet :: string where
  "bullet = [CHR 0xE2, CHR 0x80, CHR 0xA2]"

definition question_mark :: string where
  "question_mark = [CHR 0xE2, CHR 0x9D, CHR 0x93]"

definition newline :: string where
  "newline = [CHR 0x0A]"

text \<open>
  The values the program handles: what \<open>response.json()\<close> returns, the dictionaries
  it builds for the conversation history and for its results, and \<open>None\<close>
  (\<open>JNull\<close>). A dictionary is an association list in insertion order with distinct keys.
  \<open>JDec m k\<close> is the decimal literal \<open>m / 10 ^ k\<close> (the generation parameters 0.7 and
  0.95).
\<close>

datatype json =
    JNull
  | JBool bool
  | JNum int
  | JDec int nat
  | JStr string
  | JArr "json list"
  | JObj "(string \<times> json) list"

text \<open>
  Exceptions, by the three classes the handlers of \<open>call_gemini\<close> tell apart, each with
  the text that \<open>str(e)\<close> gives. \<open>requests.exceptions.Timeout\<close> is a subclass of
  \<open>RequestException\<close>, which is a subclass of \<open>Exception\<close>.
\<close>

datatype exn =
    Timeout string
  | RequestException string
  | Exception string

fun str_exn :: "exn \<Rightarrow> string" where
  "str_exn (Timeout m) = m"
| "str_exn (RequestException m) = m"
| "str_exn (Exception m) = m"

definition and_then :: "exn + 'a \<Rightarrow> ('a \<Rightarrow> exn + 'b) \<Rightarrow> exn + 'b" where
  "and_then v f = (case v of Inl x \<Rightarrow> Inl x | Inr a \<Rightarrow> f a)"

subsection \<open>Numbers as text\<close>

definition digit :: "nat \<Rightarrow> char" where
  "digit d = char_of (48 + d)"

function str_nat :: "nat \<Rightarrow> string" where
  "str_nat n = (if n < 10 then [digit n] else str_nat (n div 10) @ [digit (n mod 10)])"
  by pat_completeness auto
termination
  by (relation "measure id") auto

declare str_nat.simps [simp del]

definition str_int :: "int \<Rightarrow> string" where
  "str_int i = (if i < 0 then CHR ''-'' # str_nat (nat (- i)) else str_nat (nat i))"

text \<open>
  \<open>f"{n / d:.1f}"\<close> for a file size \<open>n\<close> and a power of two \<open>d\<close>: the quotient
  rounded to one decimal, ties to the even digit. The source divides in floating point;
  for \<open>n < 2 ^ 53\<close> and \<open>d\<close> a power of two that quotient is exact, and the format
  rounds the exact value.
\<close>

definition round_half_even :: "nat \<Rightarrow> nat \<Rightarrow> nat" where
  "round_half_even a d =
     (let q = a div d; r = a mod d
      in if 2 * r < d then q
         else if d < 2 * r then q + 1
         else if even q then q else q + 1)"

definition fmt_1f :: "nat \<Rightarrow> nat \<Rightarrow> string" where
  "fmt_1f n d =
     (let t = round_half_even (10 * n) d
      in str_nat (t div 10) @ ''.'' @ [digit (t mod 10)])"

subsection \<open>String methods\<close>

text \<open>
  \<open>str.lower\<close> on the ASCII letters and \<open>str.strip\<close>, \<open>str.split\<close> on the ASCII
  white space (tab, line feed, vertical tab, form feed, carriage return, the separators
  0x1C to 0x1F and the space); Python's handling of letters and spaces beyond ASCII is
  outside the model.
\<close>

definition lower_char :: "char \<Rightarrow> char" where
  "lower_char c =
     (let n = of_char c :: nat in if 65 \<le> n \<and> n \<le> 90 then char_of (n + 32) else c)"

definition lower :: "string \<Rightarrow> string" where
  "lower s = map lower_char s"

definition is_space :: "char \<Rightarrow> bool" where
  "is_space c =
     (let n = of_char c :: nat in (9 \<le> n \<and> n \<le> 13) \<or> (28 \<le> n \<and> n \<le> 32))"

definition lstrip :: "string \<Rightarrow> string" where
  "lstrip s = dropWhile is_space s"

definition strip :: "string \<Rightarrow> string" where
  "strip s = rev (dropWhile is_space (rev (dropWhile is_space s)))"

text \<open>\<open>len(s.split())\<close> is the number of maximal runs of characters that are not spaces.\<close>

fun count_words :: "bool \<Rightarrow> string \<Rightarrow> nat" where
  "count_words in_word [] = 0"
| "count_words in_word (c # cs) =
     (if is_space c then count_words False cs
      else (if in_word then 0 else 1) + count_words True cs)"

text \<open>
  \<open>s.split(maxsplit=1)[1]\<close> when \<open>s\<close> has at least two words: what follows the
  first word and the spaces after it, trailing spaces kept.
\<close>

definition split_rest :: "string \<Rightarrow> string" where
  "split_rest s = lstrip (dropWhile (\<lambda>c. \<not> is_space c) (lstrip s))"

text \<open>\<open>needle in haystack\<close> for strings.\<close>

fun contains :: "string \<Rightarrow> string \<Rightarrow> bool" where
  "contains needle [] = (needle = [])"
| "contains needle (c # cs) = (prefix needle (c # cs) \<or> contains needle cs)"

subsection \<open>Operations on values, as Python evaluates them\<close>

fun type_name :: "json \<Rightarrow> string" where
  "type_name JNull = ''NoneType''"
| "type_name (JBool b) = ''bool''"
| "type_name (JNum i) = ''int''"
| "type_name (JDec m k) = ''float''"
| "type_name (JStr s) = ''str''"
| "type_name (JArr xs) = ''list''"
| "type_name (JObj kvs) = ''dict''"

text \<open>Truth value testing, as in \<open>if not file_name\<close> and \<open>if file_uri\<close>.\<close>

fun truthy :: "json \<Rightarrow> bool" where
  "truthy JNull = False"
| "truthy (JBool b) = b"
| "truthy (JNum i) = (i \<noteq> 0)"
| "truthy (JDec m k) = (m \<noteq> 0)"
| "truthy (JStr s) = (s \<noteq> [])"
| "truthy (JArr xs) = (xs \<noteq> [])"
| "truthy (JObj kvs) = (kvs \<noteq> [])"

text \<open>
  The texts of the interpreter's own exceptions are those of CPython 3.11; no property
  below depends on them.
\<close>

text \<open>\<open>x.get(key, default)\<close>: only a dictionary has the method.\<close>

definition py_get :: "json \<Rightarrow> string \<Rightarrow> json \<Rightarrow> exn + json" where
  "py_get x key dflt =
     (case x of
        JObj kvs \<Rightarrow> (case map_of kvs key of None \<Rightarrow> Inr dflt | Some v \<Rightarrow> Inr v)
      | _ \<Rightarrow> Inl (Exception ([CHR 0x27] @ type_name x @ [CHR 0x27] @
                 '' object has no attribute '' @ [CHR 0x27] @ ''get'' @ [CHR 0x27])))"

text \<open>\<open>key in x\<close> for a string \<open>key\<close>.\<close>

definition py_in :: "string \<Rightarrow> json \<Rightarrow> exn + bool" where
  "py_in key x =
     (case x of
        JObj kvs \<Rightarrow> Inr (key \<in> set (map fst kvs))
      | JArr xs \<Rightarrow> Inr (JStr key \<in> set xs)
      | JStr s \<Rightarrow> Inr (contains key s)
      | _ \<Rightarrow> Inl (Exception (''argument of type '' @ [CHR 0x27] @ type_name x @ [CHR 0x27] @
                 '' is not iterable'')))"

text \<open>\<open>len(x)\<close>; a string's length is counted in bytes here, in code points in Python.\<close>

definition py_len :: "json \<Rightarrow> exn + nat" where
  "py_len x =
     (case x of
        JObj kvs \<Rightarrow> Inr (length kvs)
      | JArr xs \<Rightarrow> Inr (length xs)
      | JStr s \<Rightarrow> Inr (length s)
      | _ \<Rightarrow> Inl (Exception (''object of type '' @ [CHR 0x27] @ type_name x @ [CHR 0x27] @
                 '' has no len()'')))"

text \<open>\<open>x[0]\<close>; on a non-empty string the first character, taken as its first byte here.\<close>

definition py_first :: "json \<Rightarrow> exn + json" where
  "py_first x =
     (case x of
        JArr xs \<Rightarrow> (case xs of [] \<Rightarrow> Inl (Exception ''list index out of range'')
                    | y # ys \<Rightarrow> Inr y)
      | JStr s \<Rightarrow> (case s of [] \<Rightarrow> Inl (Exception ''string index out of range'')
                    | c # cs \<Rightarrow> Inr (JStr [c]))
      | JObj kvs \<Rightarrow> Inl (Exception ''0'')
      | _ \<Rightarrow> Inl (Exception ([CHR 0x27] @ type_name x @ [CHR 0x27] @
                 '' object is not subscriptable'')))"

text \<open>\<open>x[key]\<close> for a string \<open>key\<close>.\<close>

definition py_item :: "json \<Rightarrow> string \<Rightarrow> exn + json" where
  "py_item x key =
     (case x of
        JObj kvs \<Rightarrow> (case map_of kvs key of
                       None \<Rightarrow> Inl (Exception ([CHR 0x27] @ key @ [CHR 0x27]))
                     | Some v \<Rightarrow> Inr v)
      | JArr xs \<Rightarrow> Inl (Exception ''list indices must be integers or slices, not str'')
      | JStr s \<Rightarrow> Inl (Exception (''string indices must be integers, not '' @
                         [CHR 0x27] @ ''str'' @ [CHR 0x27]))
      | _ \<Rightarrow> Inl (Exception ([CHR 0x27] @ type_name x @ [CHR 0x27] @
                 '' object is not subscriptable'')))"

section \<open>Paths\<close>

text \<open>
  \<open>Path(p).name\<close> is the last component of \<open>p\<close>, where empty components and
  \<open>.\<close> do not count; \<open>Path(p).suffix\<close> is that name from its last dot on, unless the
  name has no dot or the last dot is its first or its last character.
\<close>

fun split_slash :: "string \<Rightarrow> string list" where
  "split_slash [] = [[]]"
| "split_slash (c # cs) =
     (if c = CHR ''/'' then [] # split_slash cs
      else (case split_slash cs of
              [] \<Rightarrow> [[c]]
            | w # ws \<Rightarrow> (c # w) # ws))"

definition components :: "string \<Rightarrow> string list" where
  "components p = filter (\<lambda>c. c \<noteq> [] \<and> c \<noteq> ''.'') (split_slash p)"

definition path_name :: "string \<Rightarrow> string" where
  "path_name p = (case rev (components p) of [] \<Rightarrow> [] | c # cs \<Rightarrow> c)"

definition suffix_of_name :: "string \<Rightarrow> string" where
  "suffix_of_name n =
     (let ext = rev (takeWhile (\<lambda>c. c \<noteq> CHR ''.'') (rev n))
      in if length ext = length n then []
         else if ext = [] \<or> length n = length ext + 1 then []
         else CHR ''.'' # ext)"

definition path_suffix :: "string \<Rightarrow> string" where
  "path_suffix p = suffix_of_name (path_name p)"

section \<open>The world outside the program\<close>

text \<open>
  What the program reads from its surroundings is a parameter of the model. Each field
  stands for the library call named beside it, as a function of the path string the
  program passes; a call that raises returns \<open>Inl\<close>.
\<close>

datatype entry_kind =
    RegularFile "exn + nat"
  | Directory
  | Special

record response =
  status_code :: nat
  headers :: "(string \<times> string) list"
  resp_text :: string
  json_body :: "exn + json"

text \<open>
  A request either gets a response or raises; the number is the time the call took, in
  milliseconds.
\<close>

datatype net_result =
    Responds nat response
  | Fails nat exn

record env =
  path_resolve :: "string \<Rightarrow> exn + string"
  path_exists :: "string \<Rightarrow> exn + bool"
  path_is_dir :: "string \<Rightarrow> exn + bool"
  stat_size :: "string \<Rightarrow> exn + nat"
  read_bytes :: "string \<Rightarrow> exn + string"
  read_text :: "string \<Rightarrow> exn + string"
  listing :: "string \<Rightarrow> exn + (string \<times> entry_kind) list"
  guess_type :: "string \<Rightarrow> string option"
  b64encode :: "string \<Rightarrow> string"
  repr :: "json \<Rightarrow> string"
  remote :: "nat \<Rightarrow> net_result"

text \<open>
  \<open>path_resolve p\<close> is \<open>str(Path(p).resolve())\<close>; \<open>path_exists\<close>, \<open>path_is_dir\<close>
  and \<open>stat_size\<close> are \<open>Path(p).exists()\<close>, \<open>.is_dir()\<close> and \<open>.stat().st_size\<close>;
  \<open>read_bytes\<close> and \<open>read_text\<close> are the two ways the program opens a file
  (\<open>'rb'\<close>, and \<open>'r'\<close> with UTF-8 and errors ignored); \<open>listing p\<close> is
  \<open>sorted(Path(p).iterdir())\<close> with, for each entry, its name and what \<open>is_file\<close>,
  \<open>is_dir\<close> and \<open>stat().st_size\<close> say of it; \<open>guess_type p\<close> is the first component
  of \<open>mimetypes.guess_type(str(Path(p)))\<close>; \<open>b64encode\<close> is
  \<open>base64.b64encode(...).decode()\<close>; \<open>repr\<close> is Python's text for a list, a
  dictionary or a float; \<open>remote n\<close> is what happens to the request the program makes
  after \<open>n\<close> earlier ones.
\<close>

datatype req_body =
    NoBody
  | JsonBody json
  | DataBody string

record request =
  meth :: string
  url :: string
  req_headers :: "(string \<times> string) list"
  body :: req_body
  timeout :: nat

text \<open>
  A value of \<open>uploaded_files\<close>: the dictionary with the keys \<open>uri\<close>, \<open>name\<close>,
  \<open>mime_type\<close> and \<open>size\<close> that \<open>upload_file_to_gemini\<close> stores.
\<close>

record upload_info =
  info_uri :: json
  info_name :: json
  info_mime_type :: string
  info_size :: nat

text \<open>
  The object's fields, and with them what the program has done to the world so far: the
  requests it has sent, the lines it has printed, and the wall clock in milliseconds
  (\<open>time.time()\<close>).
\<close>

record chat =
  api_key :: string
  base_url :: string
  model :: string
  allowed_dirs :: "string list"
  conversation_history :: "json list"
  uploaded_files :: "(string \<times> upload_info) list"
  sent :: "request list"
  printed :: "string list"
  clock :: nat

definition init :: "env \<Rightarrow> string \<Rightarrow> string list \<Rightarrow> exn + chat" where
  "init e key dirs =
     and_then
       (fold (\<lambda>d acc. and_then acc (\<lambda>ds. and_then (path_resolve e d) (\<lambda>r. Inr (ds @ [r]))))
          (if dirs = [] then [''.''] else dirs) (Inr []))
       (\<lambda>ds. Inr \<lparr> api_key = key,
                  base_url = ''https://generativelanguage.googleapis.com/v1beta'',
                  model = ''gemini-1.5-flash'',
                  allowed_dirs = ds,
                  conversation_history = [],
                  uploaded_files = [],
                  sent = [], printed = [], clock = 0 \<rparr>)"

definition print :: "string \<Rightarrow> chat \<Rightarrow> chat" where
  "print line s = s\<lparr>printed := printed s @ [line]\<rparr>"

definition sleep :: "nat \<Rightarrow> chat \<Rightarrow> chat" where
  "sleep seconds s = s\<lparr>clock := clock s + 1000 * seconds\<rparr>"

text \<open>One call of \<open>requests.post\<close>, \<open>requests.get\<close> or \<open>requests.delete\<close>.\<close>

definition http :: "env \<Rightarrow> request \<Rightarrow> chat \<Rightarrow> (exn + response) \<times> chat" where
  "http e r s =
     (case remote e (length (sent s)) of
        Responds d resp \<Rightarrow> (Inr resp, s\<lparr>sent := sent s @ [r], clock := clock s + d\<rparr>)
      | Fails d x \<Rightarrow> (Inl x, s\<lparr>sent := sent s @ [r], clock := clock s + d\<rparr>))"

text \<open>\<open>str(x)\<close> as an f-string inserts it.\<close>

definition py_str :: "env \<Rightarrow> json \<Rightarrow> string" where
  "py_str e x =
     (case x of
        JStr s \<Rightarrow> s
      | JNull \<Rightarrow> ''None''
      | JBool b \<Rightarrow> (if b then ''True'' else ''False'')
      | JNum i \<Rightarrow> str_int i
      | _ \<Rightarrow> repr e x)"

text \<open>
  The headers of a response are a case-insensitive dictionary; \<open>None\<close> is the result
  for a header that is absent.
\<close>

definition header_get :: "(string \<times> string) list \<Rightarrow> string \<Rightarrow> string option" where
  "header_get hs k = map_of (map (\<lambda>(a, b). (lower a, b)) hs) (lower k)"

text \<open>\<open>d[k] = v\<close> and \<open>del d[k]\<close> on a dictionary in insertion order.\<close>

fun dict_set :: "(string \<times> 'v) list \<Rightarrow> string \<Rightarrow> 'v \<Rightarrow> (string \<times> 'v) list" where
  "dict_set [] k v = [(k, v)]"
| "dict_set ((k', v') # kvs) k v =
     (if k' = k then (k, v) # kvs else (k', v') # dict_set kvs k v)"

definition dict_del :: "(string \<times> 'v) list \<Rightarrow> string \<Rightarrow> (string \<times> 'v) list" where
  "dict_del kvs k = filter (\<lambda>(k', v). k' \<noteq> k) kvs"

section \<open>AccessGuard: \<open>is_file_accessible\<close>\<close>

definition is_file_accessible :: "env \<Rightarrow> chat \<Rightarrow> string \<Rightarrow> bool" where
  "is_file_accessible e s file_path =
     (case path_resolve e file_path of
        Inl x \<Rightarrow> False
      | Inr p \<Rightarrow> list_ex (\<lambda>allowed_dir. prefix allowed_dir p) (allowed_dirs s))"

section \<open>RemoteFileUploader\<close>

subsection \<open>\<open>wait_for_file_processing\<close>\<close>

text \<open>
  The function returns \<open>None\<close> on each of its paths; the model returns, beside the
  state, the path that was taken: the early return for a name that is not truthy,
  the return after a remote state \<open>ACTIVE\<close>, the return after \<open>FAILED\<close>, the
  \<open>break\<close> after an exception, or the end of the loop when the time is up.
\<close>

datatype poll_exit = Skipped | Active | Failed | Aborted | TimedOut

definition poll_request :: "env \<Rightarrow> chat \<Rightarrow> json \<Rightarrow> request" where
  "poll_request e s file_name =
     \<lparr> meth = ''GET'',
       url = base_url s @ ''/files/'' @ py_str e file_name @ ''?key='' @ api_key s,
       req_headers = [],
       body = NoBody,
       timeout = 10 \<rparr>"

definition status_error_line :: "exn \<Rightarrow> string" where
  "status_error_line x = warning_sign @ '' Error checking processing status: '' @ str_exn x"

text \<open>
  The \<open>while\<close> loop. The clock moves by the time each request takes and by the two
  seconds of \<open>time.sleep(2)\<close>; the test compares the time since \<open>start_time\<close> with
  \<open>max_wait\<close> seconds.
\<close>

function poll_loop :: "env \<Rightarrow> json \<Rightarrow> nat \<Rightarrow> nat \<Rightarrow> chat \<Rightarrow> poll_exit \<times> chat" where
  "poll_loop e file_name max_wait start_time s =
     (if clock s - start_time < 1000 * max_wait then
        (case http e (poll_request e s file_name) s of
           (Inl x, s1) \<Rightarrow> (Aborted, print (status_error_line x) s1)
         | (Inr response, s1) \<Rightarrow>
             if status_code response = 200 then
               (case and_then (json_body response)
                       (\<lambda>result. py_get result ''state'' (JStr ''PROCESSING'')) of
                  Inl x \<Rightarrow> (Aborted, print (status_error_line x) s1)
                | Inr state \<Rightarrow>
                    if state = JStr ''ACTIVE'' then
                      (Active, print (check_mark @ '' Video processing complete!'') s1)
                    else if state = JStr ''FAILED'' then
                      (Failed, print (cross_mark @ '' Video processing failed'') s1)
                    else poll_loop e file_name max_wait start_time (sleep 2 s1))
             else poll_loop e file_name max_wait start_time (sleep 2 s1))
      else (TimedOut, s))"
  by pat_completeness auto
termination
  by (relation "measure (\<lambda>(e, file_name, max_wait, start_time, s).
                  start_time + 1000 * max_wait - clock s)")
     (auto simp: http_def sleep_def split: net_result.splits)

declare poll_loop.simps [simp del]

definition wait_for_file_processing :: "env \<Rightarrow> json \<Rightarrow> nat \<Rightarrow> chat \<Rightarrow> poll_exit \<times> chat" where
  "wait_for_file_processing e file_name max_wait s =
     (if \<not> truthy file_name then (Skipped, s)
      else (case poll_loop e file_name max_wait (clock s) s of
              (Active, s') \<Rightarrow> (Active, s')
            | (Failed, s') \<Rightarrow> (Failed, s')
            | (ex, s') \<Rightarrow>
                (ex, print (warning_sign @ '' Processing timeout - continuing anyway'') s')))"

subsection \<open>\<open>delete_uploaded_file\<close>\<close>

definition delete_request :: "env \<Rightarrow> chat \<Rightarrow> json \<Rightarrow> request" where
  "delete_request e s file_name =
     \<lparr> meth = ''DELETE'',
       url = base_url s @ ''/files/'' @ py_str e file_name @ ''?key='' @ api_key s,
       req_headers = [],
       body = NoBody,
       timeout = 10 \<rparr>"

definition delete_uploaded_file :: "env \<Rightarrow> json \<Rightarrow> chat \<Rightarrow> bool \<times> chat" where
  "delete_uploaded_file e file_name s =
     (case http e (delete_request e s file_name) s of
        (Inl x, s1) \<Rightarrow> (False, s1)
      | (Inr response, s1) \<Rightarrow> (status_code response = 204, s1))"

subsection \<open>\<open>upload_file_to_gemini\<close>\<close>

definition video_formats :: "(string \<times> string) list" where
  "video_formats =
     [(''.mp4'', ''video/mp4''),
      (''.avi'', ''video/x-msvideo''),
      (''.mov'', ''video/quicktime''),
      (''.mkv'', ''video/x-matroska''),
      (''.webm'', ''video/webm''),
      (''.flv'', ''video/x-flv''),
      (''.wmv'', ''video/x-ms-wmv''),
      (''.m4v'', ''video/mp4'')]"

definition max_size :: nat where
  "max_size = 2 * 1024 * 1024 * 1024"

definition error_dict :: "string \<Rightarrow> json" where
  "error_dict msg = JObj [(''error'', JStr msg)]"

definition too_large_message :: "nat \<Rightarrow> string" where
  "too_large_message file_size =
     ''File too large: '' @ fmt_1f file_size (1024 * 1024 * 1024) @ ''GB (max 2GB)''"

definition start_request :: "chat \<Rightarrow> string \<Rightarrow> string \<Rightarrow> nat \<Rightarrow> request" where
  "start_request s file_path mime_type file_size =
     \<lparr> meth = ''POST'',
       url = base_url s @ ''/files'' @ ''?key='' @ api_key s,
       req_headers =
         [(''X-Goog-Upload-Protocol'', ''resumable''),
          (''X-Goog-Upload-Command'', ''start''),
          (''X-Goog-Upload-Header-Content-Length'', str_nat file_size),
          (''X-Goog-Upload-Header-Content-Type'', mime_type),
          (''Content-Type'', ''application/json'')],
       body = JsonBody (JObj [(''file'', JObj [(''display_name'', JStr (path_name file_path))])]),
       timeout = 30 \<rparr>"

definition content_request :: "string \<Rightarrow> nat \<Rightarrow> string \<Rightarrow> request" where
  "content_request upload_session_url file_size file_content =
     \<lparr> meth = ''POST'',
       url = upload_session_url,
       req_headers =
         [(''Content-Length'', str_nat file_size),
          (''X-Goog-Upload-Offset'', ''0''),
          (''X-Goog-Upload-Command'', ''upload, finalize'')],
       body = DataBody file_content,
       timeout = 300 \<rparr>"

text \<open>The last three statements of the \<open>try\<close> block, reached when the transfer fails.\<close>

definition upload_failed :: "response \<Rightarrow> chat \<Rightarrow> (exn + json) \<times> chat" where
  "upload_failed response s =
     (Inr (error_dict (''Upload failed: '' @ str_nat (status_code response) @ '' - '' @
                        resp_text response)),
      print (''Response: '' @ resp_text response)
        (print (''Upload failed with status: '' @ str_nat (status_code response)) s))"

text \<open>
  Step 2 of the source: the transfer of the content, the record in \<open>uploaded_files\<close>
  and the wait. The source evaluates \<open>result.get('file', {}).get('name')\<close> twice, with
  the same result; the model evaluates it once.
\<close>

definition upload_content ::
    "env \<Rightarrow> string \<Rightarrow> string \<Rightarrow> nat \<Rightarrow> string \<Rightarrow> chat \<Rightarrow> (exn + json) \<times> chat" where
  "upload_content e file_path mime_type file_size upload_session_url s =
     (case read_bytes e file_path of
        Inl x \<Rightarrow> (Inl x, s)
      | Inr file_content \<Rightarrow>
          (case http e (content_request upload_session_url file_size file_content) s of
             (Inl x, s1) \<Rightarrow> (Inl x, s1)
           | (Inr response, s1) \<Rightarrow>
               if status_code response = 200 then
                 (case and_then (json_body response) (\<lambda>result.
                       and_then (py_get result ''file'' (JObj [])) (\<lambda>file.
                       and_then (py_get file ''uri'' JNull) (\<lambda>file_uri.
                       and_then (py_get file ''name'' JNull) (\<lambda>name.
                       Inr (file_uri, name))))) of
                    Inl x \<Rightarrow> (Inl x, s1)
                  | Inr (file_uri, name) \<Rightarrow>
                      if truthy file_uri then
                        (let s2 = s1\<lparr>uploaded_files :=
                                      dict_set (uploaded_files s1) file_path
                                        \<lparr> info_uri = file_uri,
                                          info_name = name,
                                          info_mime_type = mime_type,
                                          info_size = file_size \<rparr>\<rparr>;
                             s3 = print (hourglass @ '' Processing video...'') s2;
                             s4 = snd (wait_for_file_processing e name 300 s3)
                         in (Inr (JObj [(''uri'', file_uri), (''mime_type'', JStr mime_type)]),
                             s4))
                      else upload_failed response s1)
               else upload_failed response s1))"

text \<open>The line printed before the session is started.\<close>

definition uploading_line :: "nat \<Rightarrow> string" where
  "uploading_line file_size =
     outbox_tray @ '' Uploading video file ('' @ fmt_1f file_size (1024 * 1024) @ ''MB)...''"

text \<open>
  The \<open>try\<close> block up to the start of the session. \<open>mimetypes.guess_type\<close> is also
  called there, and its result replaced before it is used.
\<close>

definition upload_steps :: "env \<Rightarrow> string \<Rightarrow> chat \<Rightarrow> (exn + json) \<times> chat" where
  "upload_steps e file_path s =
     (case path_exists e file_path of
        Inl x \<Rightarrow> (Inl x, s)
      | Inr there \<Rightarrow>
          if \<not> there then (Inr JNull, s)
          else
            (case map_of video_formats (lower (path_suffix file_path)) of
               None \<Rightarrow> (Inr JNull, s)
             | Some mime_type \<Rightarrow>
                 (case stat_size e file_path of
                    Inl x \<Rightarrow> (Inl x, s)
                  | Inr file_size \<Rightarrow>
                      if file_size > max_size then
                        (Inr (error_dict (too_large_message file_size)), s)
                      else
                        (case http e (start_request s file_path mime_type file_size)
                                (print (uploading_line file_size) s) of
                           (Inl x, s2) \<Rightarrow> (Inl x, s2)
                         | (Inr response, s2) \<Rightarrow>
                             if status_code response \<noteq> 200 then
                               (Inr (error_dict (''Upload session failed: '' @
                                                  str_nat (status_code response))),
                                print (''Response: '' @ resp_text response)
                                  (print (''Failed to start upload session: '' @
                                           str_nat (status_code response)) s2))
                             else
                               (case header_get (headers response) ''X-Goog-Upload-URL'' of
                                  None \<Rightarrow> (Inr (error_dict ''No upload URL received''), s2)
                                | Some upload_session_url \<Rightarrow>
                                    if upload_session_url = [] then
                                      (Inr (error_dict ''No upload URL received''), s2)
                                    else upload_content e file_path mime_type file_size
                                           upload_session_url s2)))))"

definition upload_file_to_gemini :: "env \<Rightarrow> string \<Rightarrow> chat \<Rightarrow> json \<times> chat" where
  "upload_file_to_gemini e file_path s =
     (if \<not> is_file_accessible e s file_path then (JNull, s)
      else
        (case upload_steps e file_path s of
           (Inr result, s') \<Rightarrow> (result, s')
         | (Inl x, s') \<Rightarrow>
             (error_dict (''Error uploading file: '' @ str_exn x),
              print (''Exception during upload: '' @ str_exn x) s')))"

section \<open>ContentClassifier: \<open>read_file_content\<close>\<close>

definition video_extensions :: "string list" where
  "video_extensions =
     [''.mp4'', ''.avi'', ''.mov'', ''.mkv'', ''.webm'', ''.flv'', ''.wmv'', ''.m4v'']"

definition code_extensions :: "string list" where
  "code_extensions =
     [''.py'', ''.js'', ''.html'', ''.css'', ''.java'', ''.cpp'', ''.c'',
      ''.h'', ''.json'', ''.xml'', ''.yaml'', ''.yml'', ''.md'', ''.txt'',
      ''.sh'', ''.bat'', ''.ps1'', ''.sql'', ''.r'', ''.php'', ''.go'',
      ''.rs'', ''.swift'', ''.kt'', ''.ts'', ''.jsx'', ''.tsx'', ''.vue'']"

definition image_extensions :: "string list" where
  "image_extensions = [''.jpg'', ''.jpeg'', ''.png'', ''.gif'', ''.bmp'', ''.webp'']"

definition text_part :: "json \<Rightarrow> json" where
  "text_part t = JObj [(''text'', t)]"

text \<open>The branch for a video: the upload, and the part made of its result.\<close>

definition read_video :: "env \<Rightarrow> string \<Rightarrow> chat \<Rightarrow> (exn + json) \<times> chat" where
  "read_video e file_path s =
     (case upload_file_to_gemini e file_path s of
        (upload_result, s1) \<Rightarrow>
          (case and_then (if truthy upload_result then py_in ''uri'' upload_result
                          else Inr False) (\<lambda>has_uri.
                if has_uri then
                  and_then (py_item upload_result ''uri'') (\<lambda>u.
                  and_then (py_item upload_result ''mime_type'') (\<lambda>m.
                  Inr (JObj [(''file_data'', JObj [(''file_uri'', u), (''mime_type'', m)])])))
                else
                  and_then (if truthy upload_result then py_in ''error'' upload_result
                            else Inr False) (\<lambda>has_error.
                  if has_error then
                    and_then (py_item upload_result ''error'') (\<lambda>err.
                    Inr (text_part (JStr (cross_mark @ '' '' @ py_str e err))))
                  else
                    Inr (text_part (JStr (cross_mark @ '' Failed to upload video: '' @
                                          file_path))))) of
             r \<Rightarrow> (r, s1)))"

text \<open>The two branches that read the file as text.\<close>

definition read_as_text :: "env \<Rightarrow> string \<Rightarrow> exn + json" where
  "read_as_text e file_path =
     and_then (read_text e file_path) (\<lambda>content.
     Inr (text_part (JStr (''File: '' @ file_path @ newline @ newline @ content))))"

definition read_image :: "env \<Rightarrow> string \<Rightarrow> string option \<Rightarrow> exn + json" where
  "read_image e file_path mime_type =
     and_then (read_bytes e file_path) (\<lambda>bytes.
     Inr (JObj [(''inline_data'',
                 JObj [(''mime_type'',
                        JStr (case mime_type of
                                None \<Rightarrow> ''image/'' @ drop 1 (path_suffix file_path)
                              | Some m \<Rightarrow> if m = [] then ''image/'' @ drop 1 (path_suffix file_path)
                                         else m)),
                       (''data'', JStr (b64encode e bytes))])]))"

definition read_other :: "string \<Rightarrow> string option \<Rightarrow> json" where
  "read_other file_path mime_type =
     text_part (JStr (''File exists: '' @ file_path @ '' (binary file, '' @
                      (case mime_type of
                         None \<Rightarrow> ''unknown type''
                       | Some m \<Rightarrow> if m = [] then ''unknown type'' else m) @ '')''))"

definition is_text_mime :: "string option \<Rightarrow> bool" where
  "is_text_mime mime_type =
     (case mime_type of None \<Rightarrow> False | Some m \<Rightarrow> m \<noteq> [] \<and> prefix ''text/'' m)"

text \<open>The \<open>try\<close> block of \<open>read_file_content\<close>.\<close>

definition read_steps :: "env \<Rightarrow> string \<Rightarrow> chat \<Rightarrow> (exn + json) \<times> chat" where
  "read_steps e file_path s =
     (case path_exists e file_path of
        Inl x \<Rightarrow> (Inl x, s)
      | Inr there \<Rightarrow>
          if \<not> there then (Inr JNull, s)
          else
            (let mime_type = guess_type e file_path
             in if lower (path_suffix file_path) \<in> set video_extensions then
                  read_video e file_path s
                else if is_text_mime mime_type then (read_as_text e file_path, s)
                else if lower (path_suffix file_path) \<in> set code_extensions then
                  (read_as_text e file_path, s)
                else if lower (path_suffix file_path) \<in> set image_extensions then
                  (read_image e file_path mime_type, s)
                else (Inr (read_other file_path mime_type), s)))"

definition read_file_content :: "env \<Rightarrow> string \<Rightarrow> chat \<Rightarrow> json \<times> chat" where
  "read_file_content e file_path s =
     (if \<not> is_file_accessible e s file_path then (JNull, s)
      else
        (case read_steps e file_path s of
           (Inr result, s') \<Rightarrow> (result, s')
         | (Inl x, s') \<Rightarrow>
             (text_part (JStr (''Error reading file '' @ file_path @ '': '' @ str_exn x)), s')))"

text \<open>
  The category that the chain of tests in \<open>read_file_content\<close> gives a file, from its
  guessed mime type and its suffix, the tests in the order of the source.
\<close>

datatype category = Video | TextLike | Image | Opaque

definition classify :: "string option \<Rightarrow> string \<Rightarrow> category" where
  "classify mime_type ext =
     (if lower ext \<in> set video_extensions then Video
      else if is_text_mime mime_type then TextLike
      else if lower ext \<in> set code_extensions then TextLike
      else if lower ext \<in> set image_extensions then Image
      else Opaque)"

section \<open>\<open>list_files\<close>\<close>

fun join :: "string \<Rightarrow> string list \<Rightarrow> string" where
  "join sep [] = []"
| "join sep [x] = x"
| "join sep (x # y # ys) = x @ sep @ join sep (y # ys)"

definition entry_line :: "string \<times> entry_kind \<Rightarrow> exn + string list" where
  "entry_line item =
     (case snd item of
        RegularFile st \<Rightarrow>
          and_then st (\<lambda>size.
            if lower (suffix_of_name (fst item)) \<in> set video_extensions then
              Inr [clapper_board @ '' '' @ fst item @ '' ('' @ fmt_1f size (1024 * 1024) @ ''MB)'']
            else
              Inr [page_facing_up @ '' '' @ fst item @ '' ('' @ str_nat size @ '' bytes)''])
      | Directory \<Rightarrow> Inr [file_folder @ '' '' @ fst item @ ''/'']
      | Special \<Rightarrow> Inr [])"

fun entry_lines :: "(string \<times> entry_kind) list \<Rightarrow> exn + string list" where
  "entry_lines [] = Inr []"
| "entry_lines (item # items) =
     and_then (entry_line item) (\<lambda>l. and_then (entry_lines items) (\<lambda>ls. Inr (l @ ls)))"

definition list_files :: "env \<Rightarrow> chat \<Rightarrow> string \<Rightarrow> string" where
  "list_files e s directory =
     (if \<not> is_file_accessible e s directory then
        ''Directory '' @ directory @ '' is not accessible''
      else
        (case and_then (path_exists e directory) (\<lambda>there.
              and_then (if there then path_is_dir e directory else Inr False) (\<lambda>is_dir.
              if \<not> is_dir then Inr (''Directory '' @ directory @ '' does not exist'')
              else and_then (listing e directory) (\<lambda>items.
                   and_then (entry_lines items) (\<lambda>files.
                   Inr (''Contents of '' @ directory @ '':'' @ newline @ join newline files))))) of
           Inr r \<Rightarrow> r
         | Inl x \<Rightarrow> ''Error listing directory '' @ directory @ '': '' @ str_exn x))"

definition show_help :: string where
  "show_help = join newline
     [[],
      robot_face @ '' Gemini Terminal Chat Commands:'',
      [],
      speech_balloon @ '' Chat Commands:'',
      ''  '' @ bullet @ '' Just type your message to chat with Gemini'',
      ''  '' @ bullet @ '' /clear - Clear conversation history'',
      [],
      file_folder @ '' File Commands:'',
      ''  '' @ bullet @ '' /read <file_path> - Read and analyze a file (text, code, images, videos)'',
      ''  '' @ bullet @ '' /ls [directory] - List files in directory (default: current)'',
      ''  '' @ bullet @ '' /list [directory] - Same as /ls'',
      ''  '' @ bullet @ '' /dirs - Show allowed directories'',
      [],
      clapper_board @ '' Video Commands:'',
      ''  '' @ bullet @ '' /read video.mp4 - Upload and analyze video content'',
      ''  '' @ bullet @ '' /uploads - Show currently uploaded files'',
      ''  '' @ bullet @ '' /cleanup - Delete all uploaded files from Gemini'',
      [],
      question_mark @ '' Other:'',
      ''  '' @ bullet @ '' /help - Show this help'',
      ''  '' @ bullet @ '' /quit or /exit - Exit the chat'',
      ''  '' @ bullet @ '' Ctrl+C - Exit'',
      [],
      ''Supported Video Formats:'',
      ''  '' @ bullet @ '' MP4, AVI, MOV, MKV, WebM, FLV, WMV, M4V'',
      ''  '' @ bullet @ '' Max size: 2GB per video'',
      [],
      ''Examples:'',
      ''  '' @ bullet @ '' /read demo.mp4'',
      ''  '' @ bullet @ '' /read presentation.mov  '',
      ''  '' @ bullet @ '' What happens in this video?'',
      ''  '' @ bullet @ '' Describe the key scenes in the video'',
      ''  '' @ bullet @ '' Extract text from this video'',
      ''        '']"

section \<open>ChatClient: \<open>call_gemini\<close>\<close>

definition user_turn :: "json list \<Rightarrow> json" where
  "user_turn parts = JObj [(''role'', JStr ''user''), (''parts'', JArr parts)]"

definition model_turn :: "json list \<Rightarrow> json" where
  "model_turn parts = JObj [(''role'', JStr ''model''), (''parts'', JArr parts)]"

definition generation_config :: json where
  "generation_config =
     JObj [(''temperature'', JDec 7 1),
           (''topK'', JNum 40),
           (''topP'', JDec 95 2),
           (''maxOutputTokens'', JNum 8192)]"

text \<open>The body of the request: the whole history and the generation parameters.\<close>

definition payload :: "json list \<Rightarrow> json" where
  "payload history = JObj [(''contents'', JArr history), (''generationConfig'', generation_config)]"

definition generate_request :: "chat \<Rightarrow> request" where
  "generate_request s =
     \<lparr> meth = ''POST'',
       url = base_url s @ ''/models/'' @ model s @ '':generateContent'' @ ''?key='' @ api_key s,
       req_headers = [(''Content-Type'', ''application/json'')],
       body = JsonBody (payload (conversation_history s)),
       timeout = 30 \<rparr>"

text \<open>\<open>'candidates' in result and len(result['candidates']) > 0\<close>\<close>

definition has_candidates :: "json \<Rightarrow> exn + bool" where
  "has_candidates result =
     and_then (py_in ''candidates'' result) (\<lambda>present.
     if present then
       and_then (py_item result ''candidates'') (\<lambda>cs.
       and_then (py_len cs) (\<lambda>n. Inr (0 < n)))
     else Inr False)"

text \<open>\<open>result['candidates'][0]['content']['parts'][0]['text']\<close>\<close>

definition first_text :: "json \<Rightarrow> exn + json" where
  "first_text result =
     and_then (py_item result ''candidates'') (\<lambda>cs.
     and_then (py_first cs) (\<lambda>c.
     and_then (py_item c ''content'') (\<lambda>content.
     and_then (py_item content ''parts'') (\<lambda>ps.
     and_then (py_first ps) (\<lambda>p.
     py_item p ''text'')))))"

text \<open>
  \<open>error_details\<close>: the parsed body when the content type of the response starts
  with \<open>application/json\<close>, its text otherwise; then as the f-string inserts it.
\<close>

definition error_details :: "env \<Rightarrow> response \<Rightarrow> exn + string" where
  "error_details e response =
     (if prefix ''application/json''
           (case header_get (headers response) ''content-type'' of None \<Rightarrow> [] | Some v \<Rightarrow> v)
      then and_then (json_body response) (\<lambda>j. Inr (py_str e j))
      else Inr (resp_text response))"

text \<open>The \<open>try\<close> block of \<open>call_gemini\<close>.\<close>

definition call_steps :: "env \<Rightarrow> string \<Rightarrow> chat \<Rightarrow> (exn + json) \<times> chat" where
  "call_steps e message s =
     (let s1 = s\<lparr>conversation_history :=
                   conversation_history s @ [user_turn [text_part (JStr message)]]\<rparr>
      in case http e (generate_request s1) s1 of
           (Inl x, s2) \<Rightarrow> (Inl x, s2)
         | (Inr response, s2) \<Rightarrow>
             if status_code response = 200 then
               (case and_then (json_body response) (\<lambda>result.
                     and_then (has_candidates result) (\<lambda>some.
                     if some then and_then (first_text result) (\<lambda>t. Inr (Some t))
                     else Inr None)) of
                  Inl x \<Rightarrow> (Inl x, s2)
                | Inr (Some ai_response) \<Rightarrow>
                    (Inr ai_response,
                     s2\<lparr>conversation_history :=
                          conversation_history s2 @ [model_turn [text_part ai_response]]\<rparr>)
                | Inr None \<Rightarrow> (Inr (JStr (cross_mark @ '' No response generated'')), s2))
             else
               (case error_details e response of
                  Inl x \<Rightarrow> (Inl x, s2)
                | Inr details \<Rightarrow>
                    (Inr (JStr (cross_mark @ '' API Error ('' @ str_nat (status_code response) @
                                ''): '' @ details)), s2)))"

definition call_gemini :: "env \<Rightarrow> string \<Rightarrow> chat \<Rightarrow> json \<times> chat" where
  "call_gemini e message s =
     (case call_steps e message s of
        (Inr r, s') \<Rightarrow> (r, s')
      | (Inl (Timeout m), s') \<Rightarrow>
          (JStr (cross_mark @ '' Request timed out. Please try again.''), s')
      | (Inl (RequestException m), s') \<Rightarrow> (JStr (cross_mark @ '' Network error: '' @ m), s')
      | (Inl (Exception m), s') \<Rightarrow> (JStr (cross_mark @ '' Error: '' @ m), s'))"

section \<open>CommandRouter: \<open>process_message\<close>\<close>

text \<open>The loop of the \<open>/cleanup\<close> command over a copy of the items of \<open>uploaded_files\<close>.\<close>

fun cleanup_loop :: "env \<Rightarrow> (string \<times> upload_info) list \<Rightarrow> nat \<Rightarrow> chat \<Rightarrow> nat \<times> chat" where
  "cleanup_loop e [] cleaned s = (cleaned, s)"
| "cleanup_loop e ((file_path, file_info) # items) cleaned s =
     (if truthy (info_name file_info) then
        (case delete_uploaded_file e (info_name file_info) s of
           (deleted, s1) \<Rightarrow>
             cleanup_loop e items (if deleted then cleaned + 1 else cleaned)
               (s1\<lparr>uploaded_files := dict_del (uploaded_files s1) file_path\<rparr>))
      else cleanup_loop e items cleaned
             (s\<lparr>uploaded_files := dict_del (uploaded_files s) file_path\<rparr>))"

text \<open>The list \<open>files_info\<close> that the \<open>/uploads\<close> command builds.\<close>

definition uploads_info :: "(string \<times> upload_info) list \<Rightarrow> string list" where
  "uploads_info items =
     map (\<lambda>(file_path, info).
            clapper_board @ '' '' @ path_name file_path @ '' ('' @
            fmt_1f (info_size info) (1024 * 1024) @ ''MB)'') items"

text \<open>
  The result is the value the function returns, \<open>JNull\<close> where it returns \<open>None\<close>
  by reaching its end.
\<close>

definition process_message :: "env \<Rightarrow> string \<Rightarrow> chat \<Rightarrow> json \<times> chat" where
  "process_message e user_input s =
     (if prefix ''/read '' user_input then
        (let file_path = strip (drop 6 user_input)
         in case read_file_content e file_path s of
              (file_content, s1) \<Rightarrow>
                if truthy file_content then
                  call_gemini e
                    (''I'' @ [CHR 0x27] @ ''ve shared the file '' @ file_path @
                     '' with you. Please analyze it and tell me about its contents.'')
                    (s1\<lparr>conversation_history :=
                          conversation_history s1 @ [user_turn [file_content]]\<rparr>)
                else (JStr (cross_mark @ '' Cannot access file: '' @ file_path), s1))
      else if prefix ''/ls'' user_input \<or> prefix ''/list'' user_input then
        (JStr (list_files e s
                 (if 1 < count_words False user_input then split_rest user_input else ''.'')), s)
      else if prefix ''/help'' user_input then (JStr show_help, s)
      else if prefix ''/clear'' user_input then
        (JStr (broom @ '' Conversation history cleared''), s\<lparr>conversation_history := []\<rparr>)
      else if prefix ''/cleanup'' user_input then
        (case cleanup_loop e (uploaded_files s) 0 s of
           (cleaned, s1) \<Rightarrow>
             (JStr (broom @ '' Cleaned up '' @ str_nat cleaned @ '' uploaded files''), s1))
      else if prefix ''/uploads'' user_input then
        (if uploaded_files s = [] then (JStr (file_folder @ '' No uploaded files''), s)
         else (let files_info = uploads_info (uploaded_files s) in (JNull, s)))
      else if prefix ''/dirs'' user_input then
        (JStr (file_folder @ '' Allowed directories:'' @ newline @
               join newline (allowed_dirs s)), s)
      else call_gemini e user_input s)"


section \<open>Remote answers and a concrete world\<close>

text \<open>
  \<open>reports st a\<close>: the request got a response with status 200 whose body is a JSON
  object with \<open>state\<close> equal to \<open>st\<close>. \<open>took a\<close> is the time the request took.
\<close>

definition reports :: "string \<Rightarrow> net_result \<Rightarrow> bool" where
  "reports st a =
     (case a of
        Responds d r \<Rightarrow>
          status_code r = 200 \<and>
          (case json_body r of
             Inr (JObj kvs) \<Rightarrow> map_of kvs ''state'' = Some (JStr st)
           | _ \<Rightarrow> False)
      | Fails d x \<Rightarrow> False)"

fun took :: "net_result \<Rightarrow> nat" where
  "took (Responds d r) = d"
| "took (Fails d x) = d"

text \<open>
  \<open>accepted uri name a\<close>: the request got a response with status 200 whose body is a
  JSON object with a \<open>file\<close> object holding \<open>uri\<close> and \<open>name\<close>, which is how the
  remote answers a transfer it accepts.
\<close>

definition accepted :: "json \<Rightarrow> json \<Rightarrow> net_result \<Rightarrow> bool" where
  "accepted file_uri name a =
     (case a of
        Responds d r \<Rightarrow>
          status_code r = 200 \<and>
          (case json_body r of
             Inr (JObj kvs) \<Rightarrow>
               (case map_of kvs ''file'' of
                  Some (JObj fs) \<Rightarrow>
                    map_of fs ''uri'' = Some file_uri \<and> map_of fs ''name'' = Some name
                | _ \<Rightarrow> False)
           | _ \<Rightarrow> False)
      | Fails d x \<Rightarrow> False)"

text \<open>
  An instance of \<open>path_resolve\<close>: \<open>Path(p).resolve()\<close> on a POSIX file system with no
  symbolic links and the working directory \<open>cwd\<close>. The call is not strict: it does not
  look at whether the path exists, makes a relative path absolute and removes \<open>.\<close> and
  \<open>..\<close>; a path with a null byte raises.
\<close>

fun normalize :: "string list \<Rightarrow> string list \<Rightarrow> string list" where
  "normalize acc [] = rev acc"
| "normalize acc (c # cs) =
     (if c = ''..'' then normalize (tl acc) cs else normalize (c # acc) cs)"

definition resolve_nolinks :: "string \<Rightarrow> string \<Rightarrow> exn + string" where
  "resolve_nolinks cwd p =
     (if CHR 0x00 \<in> set p then Inl (Exception ''embedded null byte'')
      else Inr (''/'' @ join ''/''
                  (normalize [] ((if prefix ''/'' p then [] else components cwd) @
                                 components p))))"

text \<open>
  A small world for concrete runs: the working directory \<open>/srv/data\<close> holds
  \<open>clip.mp4\<close> (5 MiB), \<open>big.mp4\<close> (3 GiB) and \<open>notes.txt\<close> (10 bytes); the remote
  is a parameter.
\<close>

definition demo_env :: "(nat \<Rightarrow> net_result) \<Rightarrow> env" where
  "demo_env r =
     \<lparr> path_resolve = resolve_nolinks ''/srv/data'',
       path_exists = (\<lambda>p. Inr (p \<in> set [''.'', ''clip.mp4'', ''big.mp4'', ''notes.txt''])),
       path_is_dir = (\<lambda>p. Inr (p = ''.'')),
       stat_size = (\<lambda>p. if p = ''clip.mp4'' then Inr (5 * 1024 * 1024)
                         else if p = ''big.mp4'' then Inr (3 * 1024 * 1024 * 1024)
                         else if p = ''notes.txt'' then Inr 10
                         else Inl (Exception ''No such file or directory'')),
       read_bytes = (\<lambda>p. Inr ''0123456789''),
       read_text = (\<lambda>p. Inr ''0123456789''),
       listing = (\<lambda>p. Inr [(''big.mp4'', RegularFile (Inr (3 * 1024 * 1024 * 1024))),
                            (''clip.mp4'', RegularFile (Inr (5 * 1024 * 1024))),
                            (''notes.txt'', RegularFile (Inr 10))]),
       guess_type = (\<lambda>p. if path_suffix p = ''.mp4'' then Some ''video/mp4''
                          else if path_suffix p = ''.txt'' then Some ''text/plain''
                          else None),
       b64encode = (\<lambda>b. b),
       repr = (\<lambda>j. ''{...}''),
       remote = r \<rparr>"

definition demo_chat :: chat where
  "demo_chat =
     \<lparr> api_key = ''KEY'',
       base_url = ''https://generativelanguage.googleapis.com/v1beta'',
       model = ''gemini-1.5-flash'',
       allowed_dirs = [''/srv/data''],
       conversation_history = [],
       uploaded_files = [],
       sent = [], printed = [], clock = 0 \<rparr>"

definition plain_response :: "nat \<Rightarrow> string \<Rightarrow> response" where
  "plain_response code txt =
     \<lparr> status_code = code, headers = [], resp_text = txt,
       json_body = Inl (RequestException ''Expecting value'') \<rparr>"

definition json_response :: "nat \<Rightarrow> json \<Rightarrow> response" where
  "json_response code j =
     \<lparr> status_code = code, headers = [(''Content-Type'', ''application/json'')],
       resp_text = ''{...}'', json_body = Inr j \<rparr>"

definition session_response :: response where
  "session_response =
     \<lparr> status_code = 200,
       headers = [(''X-Goog-Upload-URL'', ''https://upload.example/session/1'')],
       resp_text = [], json_body = Inl (RequestException ''Expecting value'') \<rparr>"

definition file_response :: response where
  "file_response =
     json_response 200
       (JObj [(''file'', JObj [(''name'', JStr ''files/abc''),
                               (''uri'', JStr ''https://files.example/abc'')])])"

definition state_response :: "string \<Rightarrow> response" where
  "state_response st = json_response 200 (JObj [(''state'', JStr st)])"

definition candidate_response :: "string \<Rightarrow> response" where
  "candidate_response t =
     json_response 200
       (JObj [(''candidates'',
               JArr [JObj [(''content'',
                            JObj [(''parts'', JArr [JObj [(''text'', JStr t)]])])]])])"

text \<open>
  A remote that opens the session, accepts the transfer and then answers every status
  poll with the state \<open>st\<close> after \<open>d\<close> milliseconds.
\<close>

definition upload_remote :: "string \<Rightarrow> nat \<Rightarrow> nat \<Rightarrow> net_result" where
  "upload_remote st d n =
     (if n = 0 then Responds 0 session_response
      else if n = 1 then Responds 0 file_response
      else Responds d (state_response st))"

text \<open>Remotes that answer every request in the same way.\<close>

definition no_location_remote :: "nat \<Rightarrow> net_result" where
  "no_location_remote n = Responds 0 (plain_response 200 ''oops'')"

definition unavailable_remote :: "nat \<Rightarrow> net_result" where
  "unavailable_remote n = Responds 0 (plain_response 503 ''backend unavailable'')"

text \<open>
  \<open>uploadable e s p mime_type file_size file_content\<close>: the path passes the checks
  that come before the first request of \<open>upload_file_to_gemini\<close> (it is accessible, it
  exists, its suffix is that of a video with this mime type, its size is within the cap)
  and the file can be read. \<open>session_opened u a\<close>: the request got status 200 and the
  upload URL \<open>u\<close> in the header \<open>X-Goog-Upload-URL\<close>.
\<close>

definition uploadable :: "env \<Rightarrow> chat \<Rightarrow> string \<Rightarrow> string \<Rightarrow> nat \<Rightarrow> string \<Rightarrow> bool" where
  "uploadable e s p mime_type file_size file_content =
     (is_file_accessible e s p \<and>
      path_exists e p = Inr True \<and>
      map_of video_formats (lower (path_suffix p)) = Some mime_type \<and>
      stat_size e p = Inr file_size \<and>
      file_size \<le> max_size \<and>
      read_bytes e p = Inr file_content)"

definition session_opened :: "string \<Rightarrow> net_result \<Rightarrow> bool" where
  "session_opened u a =
     (case a of
        Responds d r \<Rightarrow>
          status_code r = 200 \<and> u \<noteq> [] \<and>
          header_get (headers r) ''X-Goog-Upload-URL'' = Some u
      | Fails d x \<Rightarrow> False)"

text \<open>The part that \<open>read_file_content\<close> makes of an uploaded video.\<close>

definition file_data_part :: "json \<Rightarrow> string \<Rightarrow> json" where
  "file_data_part file_uri mime_type =
     JObj [(''file_data'', JObj [(''file_uri'', file_uri), (''mime_type'', JStr mime_type)])]"

text \<open>
  The state in which \<open>upload_file_to_gemini\<close> begins to wait: the session is open,
  the content has been transferred and the file is recorded in \<open>uploaded_files\<close>.
\<close>

definition mid_state :: "env \<Rightarrow> chat \<Rightarrow> string \<Rightarrow> string \<Rightarrow> nat \<Rightarrow> string \<Rightarrow> string \<Rightarrow> json \<Rightarrow> json \<Rightarrow> chat" where
  "mid_state e s p mime_type file_size file_content u file_uri name =
     s\<lparr>printed := printed s @ [uploading_line file_size, hourglass @ '' Processing video...''],
       sent := sent s @ [start_request s p mime_type file_size,
                         content_request u file_size file_content],
       clock := clock s + took (remote e (length (sent s))) +
                took (remote e (Suc (length (sent s)))),
       uploaded_files := dict_set (uploaded_files s) p
          \<lparr> info_uri = file_uri, info_name = name,
            info_mime_type = mime_type, info_size = file_size \<rparr>\<rparr>"

text \<open>A mime-type guess that calls every file a text.\<close>

definition text_guess :: "string \<Rightarrow> string option" where
  "text_guess p = Some ''text/plain''"

text \<open>Remotes for the chat, and a state with one turn and one uploaded file.\<close>

definition hi_remote :: "nat \<Rightarrow> net_result" where
  "hi_remote n = Responds 0 (candidate_response ''hi'')"



definition busy_chat :: chat where
  "busy_chat =
     demo_chat\<lparr>conversation_history := [user_turn [text_part (JStr ''hello'')]],
               uploaded_files :=
                 [(''clip.mp4'',
                   \<lparr> info_uri = JStr ''https://files.example/abc'',
                     info_name = JStr ''files/abc'',
                     info_mime_type = ''video/mp4'',
                     info_size = 5242880 \<rparr>)]\<rparr>"

text \<open>
  \<open>keeps_waiting a\<close>: the answer to a status poll after which the loop of
  \<open>wait_for_file_processing\<close> sleeps and polls again: a status other than 200, or
  status 200 with a body whose \<open>state\<close> (\<open>PROCESSING\<close> when the key is absent) is
  neither \<open>ACTIVE\<close> nor \<open>FAILED\<close>.
\<close>

definition keeps_waiting :: "net_result \<Rightarrow> bool" where
  "keeps_waiting a =
     (case a of
        Responds d r \<Rightarrow>
          if status_code r = 200 then
            (case and_then (json_body r)
                    (\<lambda>result. py_get result ''state'' (JStr ''PROCESSING'')) of
               Inl x \<Rightarrow> False
             | Inr state \<Rightarrow> state \<noteq> JStr ''ACTIVE'' \<and> state \<noteq> JStr ''FAILED'')
          else True
      | Fails d x \<Rightarrow> False)"

text \<open>
  \<open>waited e n j\<close>: the time, in milliseconds, that \<open>j\<close> rounds of the loop take when
  the first of them makes request number \<open>n\<close>: for each round the time its request
  takes and the two seconds of sleep.
\<close>

fun waited :: "env \<Rightarrow> nat \<Rightarrow> nat \<Rightarrow> nat" where
  "waited e n 0 = 0"
| "waited e n (Suc j) = took (remote e n) + 2000 + waited e (Suc n) j"

text \<open>
  A remote that opens the session, accepts the transfer, answers two status polls with
  \<open>PROCESSING\<close> after half a second each, and every later one with \<open>FAILED\<close>.
\<close>

definition late_failure_remote :: "nat \<Rightarrow> net_result" where
  "late_failure_remote n =
     (if n = 0 then Responds 0 session_response
      else if n = 1 then Responds 0 file_response
      else if n < 4 then Responds 500 (state_response ''PROCESSING'')
      else Responds 0 (state_response ''FAILED''))"

section \<open>Properties\<close>

subsection \<open>Requests and the polling loop\<close>

lemma http_responds:
  "remote e (length (sent s)) = Responds d r \<Longrightarrow>
   http e q s = (Inr r, s\<lparr>sent := sent s @ [q], clock := clock s + d\<rparr>)"
  by (simp add: http_def)

lemma http_fails:
  "remote e (length (sent s)) = Fails d x \<Longrightarrow>
   http e q s = (Inl x, s\<lparr>sent := sent s @ [q], clock := clock s + d\<rparr>)"
  by (simp add: http_def)

lemma poll_request_frame [simp]:
  "poll_request e (s\<lparr>sent := a, clock := b\<rparr>) fn = poll_request e s fn"
  by (simp add: poll_request_def)

lemma reports_state:
  assumes "reports st a"
  obtains d r kvs where "a = Responds d r" and "status_code r = 200"
    and "json_body r = Inr (JObj kvs)" and "map_of kvs ''state'' = Some (JStr st)"
  using assms unfolding reports_def
  by (auto split: net_result.splits sum.splits json.splits)

lemma poll_step:
  assumes "reports st (remote e (length (sent s)))"
    and "st \<noteq> ''ACTIVE''" and "st \<noteq> ''FAILED''"
    and "clock s - start < 1000 * mw"
  shows "poll_loop e fn mw start s =
         poll_loop e fn mw start
           (s\<lparr>sent := sent s @ [poll_request e s fn],
              clock := clock s + took (remote e (length (sent s))) + 2000\<rparr>)"
proof -
  from assms(1) obtain d r kvs where a: "remote e (length (sent s)) = Responds d r"
    and r: "status_code r = 200" "json_body r = Inr (JObj kvs)"
           "map_of kvs ''state'' = Some (JStr st)"
    by (rule reports_state)
  show ?thesis
    by (subst poll_loop.simps)
       (simp add: assms(2-4) a r http_responds and_then_def py_get_def sleep_def)
qed

lemma poll_done:
  "\<not> clock s - start < 1000 * mw \<Longrightarrow> poll_loop e fn mw start s = (TimedOut, s)"
  by (subst poll_loop.simps) simp

lemma shift_bound:
  fixes c :: nat
  assumes "c - start + Suc j * w < m" and "start \<le> c"
  shows "c + w - start + j * w < m"
proof -
  have "c + w - start = c - start + w" using assms(2) by arith
  moreover have "Suc j * w = w + j * w" by (rule mult_Suc)
  ultimately show ?thesis using assms(1) by linarith
qed

lemma shift_end:
  fixes c :: nat
  assumes "m \<le> c - start + Suc k * w" and "start \<le> c"
  shows "m \<le> c + w - start + k * w"
proof -
  have "c + w - start = c - start + w" using assms(2) by arith
  moreover have "Suc k * w = w + k * w" by (rule mult_Suc)
  ultimately show ?thesis using assms(1) by linarith
qed

lemma poll_loop_processing:
  assumes "\<forall>n \<ge> length (sent s). reports ''PROCESSING'' (remote e n) \<and> took (remote e n) = d"
    and "\<forall>j<k. clock s - start + j * (d + 2000) < 1000 * mw"
    and "1000 * mw \<le> clock s - start + k * (d + 2000)"
    and "start \<le> clock s"
  shows "poll_loop e fn mw start s =
         (TimedOut, s\<lparr>sent := sent s @ replicate k (poll_request e s fn),
                       clock := clock s + k * (d + 2000)\<rparr>)"
proof -
  define w where "w = d + 2000"
  define m where "m = 1000 * mw"
  have "(\<forall>n \<ge> length (sent s). reports ''PROCESSING'' (remote e n) \<and> took (remote e n) = d) \<Longrightarrow>
        (\<forall>j<k. clock s - start + j * w < m) \<Longrightarrow> m \<le> clock s - start + k * w \<Longrightarrow>
        start \<le> clock s \<Longrightarrow>
        poll_loop e fn mw start s =
         (TimedOut, s\<lparr>sent := sent s @ replicate k (poll_request e s fn),
                       clock := clock s + k * w\<rparr>)"
  proof (induction k arbitrary: s)
    case 0
    then have "\<not> clock s - start < 1000 * mw" by (simp add: m_def)
    then show ?case by (simp add: poll_done)
  next
    case (Suc k)
    let ?s = "s\<lparr>sent := sent s @ [poll_request e s fn], clock := clock s + w\<rparr>"
    have "clock s - start + 0 * w < m" using Suc.prems(2) by blast
    then have lt: "clock s - start < 1000 * mw" by (simp add: m_def)
    have rep: "reports ''PROCESSING'' (remote e (length (sent s)))"
      and tk: "took (remote e (length (sent s))) = d"
      using Suc.prems(1) by auto
    have step: "poll_loop e fn mw start s = poll_loop e fn mw start ?s"
      using poll_step [OF rep _ _ lt, of fn] tk by (simp add: w_def add.assoc)
    have a1: "\<forall>n \<ge> length (sent ?s). reports ''PROCESSING'' (remote e n) \<and> took (remote e n) = d"
      using Suc.prems(1) by simp
    have a2: "\<forall>j<k. clock ?s - start + j * w < m"
    proof (intro allI impI)
      fix j assume "j < k"
      then have "Suc j < Suc k" by simp
      from Suc.prems(2) [rule_format, OF this]
      have "clock s - start + Suc j * w < m" .
      from shift_bound [OF this Suc.prems(4)]
      show "clock ?s - start + j * w < m" by simp
    qed
    have a3: "m \<le> clock ?s - start + k * w"
      using shift_end [OF Suc.prems(3,4)] by simp
    have a4: "start \<le> clock ?s" using Suc.prems(4) by simp
    show ?case
      unfolding step
      by (subst Suc.IH [OF a1 a2 a3 a4]) (simp add: replicate_app_Cons_same add.assoc)
  qed
  then show ?thesis using assms by (simp add: w_def m_def)
qed

subsection \<open>The size cap\<close>

lemma digit_values:
  "digit 0 = CHR ''0''" "digit 1 = CHR ''1''" "digit 2 = CHR ''2''" "digit 3 = CHR ''3''"
  "digit 4 = CHR ''4''" "digit 5 = CHR ''5''" "digit 6 = CHR ''6''" "digit 7 = CHR ''7''"
  "digit 8 = CHR ''8''" "digit 9 = CHR ''9''"
  unfolding digit_def by code_simp+

lemma video_formats_lookup:
  "lower (path_suffix p) \<in> set video_extensions \<Longrightarrow>
   \<exists>m. map_of video_formats (lower (path_suffix p)) = Some m"
  by (auto simp: video_extensions_def video_formats_def)

text \<open>
  C4. A video that is accessible and exists, and whose measured size is above the cap of
  2 GiB, makes \<open>upload_file_to_gemini\<close> return the error \<open>File too large\<close> with the
  size (in GB, one decimal); the state is the one before the call: no request has been
  sent, nothing is recorded in \<open>uploaded_files\<close>.
\<close>

theorem too_large_fails_before_any_request:
  assumes "is_file_accessible e s file_path"
    and "path_exists e file_path = Inr True"
    and "lower (path_suffix file_path) \<in> set video_extensions"
    and "stat_size e file_path = Inr file_size"
    and "max_size < file_size"
  shows "upload_file_to_gemini e file_path s = (error_dict (too_large_message file_size), s)"
proof -
  from video_formats_lookup [OF assms(3)] obtain m where
    m: "map_of video_formats (lower (path_suffix file_path)) = Some m" ..
  show ?thesis
    by (simp add: upload_file_to_gemini_def upload_steps_def assms m)
qed

lemma demo_resolve:
  "path_resolve (demo_env r) ''big.mp4'' = Inr ''/srv/data/big.mp4''"
  "path_resolve (demo_env r) ''clip.mp4'' = Inr ''/srv/data/clip.mp4''"
  "path_resolve (demo_env r) ''missing/x.txt'' = Inr ''/srv/data/missing/x.txt''"
  "path_resolve (demo_env r) ''../../etc/passwd'' = Inr ''/etc/passwd''"
  by (simp_all add: demo_env_def resolve_nolinks_def components_def)

lemma demo_suffix:
  "path_suffix ''big.mp4'' = ''.mp4''" "path_suffix ''clip.mp4'' = ''.mp4''"
  by (simp_all add: path_suffix_def path_name_def components_def suffix_of_name_def)

lemma lower_mp4: "lower ''.mp4'' = ''.mp4''"
  by (simp add: lower_def lower_char_def)

lemma fmt3: "fmt_1f 3221225472 1073741824 = ''3.0''"
  by (simp add: fmt_1f_def round_half_even_def str_nat.simps digit_values)

theorem too_large_fails_before_any_request_witness:
  "upload_file_to_gemini (demo_env (upload_remote ''ACTIVE'' 0)) ''big.mp4'' demo_chat =
     (JObj [(''error'', JStr ''File too large: 3.0GB (max 2GB)'')], demo_chat)"
proof -
  have a: "is_file_accessible (demo_env (upload_remote ''ACTIVE'' 0)) demo_chat ''big.mp4''"
    by (simp add: is_file_accessible_def demo_resolve) (simp add: demo_chat_def)
  have b: "path_exists (demo_env (upload_remote ''ACTIVE'' 0)) ''big.mp4'' = Inr True"
    by (simp add: demo_env_def)
  have c: "lower (path_suffix ''big.mp4'') \<in> set video_extensions"
    by (simp add: demo_suffix lower_mp4 video_extensions_def)
  have d: "stat_size (demo_env (upload_remote ''ACTIVE'' 0)) ''big.mp4'' =
             Inr (3 * 1024 * 1024 * 1024)"
    by (simp add: demo_env_def)
  have e: "max_size < 3 * 1024 * 1024 * 1024" by (simp add: max_size_def)
  show ?thesis
    using too_large_fails_before_any_request [OF a b c d e]
    by (simp add: error_dict_def too_large_message_def fmt3)
qed

subsection \<open>The start of the upload session\<close>

lemma print_fields [simp]:
  "sent (print l s) = sent s" "clock (print l s) = clock s"
  "uploaded_files (print l s) = uploaded_files s"
  "conversation_history (print l s) = conversation_history s"
  "printed (print l s) = printed s @ [l]"
  "base_url (print l s) = base_url s" "api_key (print l s) = api_key s"
  by (simp_all add: print_def)

lemma upload_steps_session:
  assumes "path_exists e file_path = Inr True"
    and "map_of video_formats (lower (path_suffix file_path)) = Some mime_type"
    and "stat_size e file_path = Inr file_size" and "file_size \<le> max_size"
    and "remote e (length (sent s)) = Responds d response"
  shows "upload_steps e file_path s =
     (let s2 = (print (uploading_line file_size) s)
                 \<lparr>sent := sent s @ [start_request s file_path mime_type file_size],
                  clock := clock s + d\<rparr>
      in if status_code response \<noteq> 200 then
           (Inr (error_dict (''Upload session failed: '' @ str_nat (status_code response))),
            print (''Response: '' @ resp_text response)
              (print (''Failed to start upload session: '' @ str_nat (status_code response)) s2))
         else
           (case header_get (headers response) ''X-Goog-Upload-URL'' of
              None \<Rightarrow> (Inr (error_dict ''No upload URL received''), s2)
            | Some upload_session_url \<Rightarrow>
                if upload_session_url = [] then (Inr (error_dict ''No upload URL received''), s2)
                else upload_content e file_path mime_type file_size upload_session_url s2))"
proof -
  have h: "http e (start_request s file_path mime_type file_size)
             (print (uploading_line file_size) s) =
           (Inr response,
            (print (uploading_line file_size) s)
               \<lparr>sent := sent s @ [start_request s file_path mime_type file_size],
                clock := clock s + d\<rparr>)"
    using http_responds [of e "print (uploading_line file_size) s" d response] assms(5)
    by simp
  have le: "\<not> max_size < file_size" using assms(4) by simp
  show ?thesis
    unfolding upload_steps_def
    by (simp only: assms(1-3) le h sum.case if_True if_False simp_thms option.case
          prod.case Let_def)
qed

text \<open>
  C3, as the code has it. When the request that starts the session gets a status other
  than 200, \<open>upload_file_to_gemini\<close> returns the error \<open>Upload session failed\<close>
  with the status code, and prints the status code and the body of the response; when
  it gets 200 without an upload URL, it returns the error \<open>No upload URL received\<close>.
  In both cases that request is the only one sent, and \<open>uploaded_files\<close> is as before.
\<close>

theorem session_start_failure:
  assumes "is_file_accessible e s file_path"
    and "path_exists e file_path = Inr True"
    and "map_of video_formats (lower (path_suffix file_path)) = Some mime_type"
    and "stat_size e file_path = Inr file_size" and "file_size \<le> max_size"
    and "remote e (length (sent s)) = Responds d response"
    and "status_code response \<noteq> 200 \<or>
         header_get (headers response) ''X-Goog-Upload-URL'' = None \<or>
         header_get (headers response) ''X-Goog-Upload-URL'' = Some []"
  shows "upload_file_to_gemini e file_path s =
     (error_dict (if status_code response \<noteq> 200
                  then ''Upload session failed: '' @ str_nat (status_code response)
                  else ''No upload URL received''),
      s\<lparr>sent := sent s @ [start_request s file_path mime_type file_size],
        clock := clock s + d,
        printed := printed s @ uploading_line file_size #
          (if status_code response \<noteq> 200
           then [''Failed to start upload session: '' @ str_nat (status_code response),
                 ''Response: '' @ resp_text response]
           else [])\<rparr>)"
  using assms(7)
  by (auto simp: upload_file_to_gemini_def assms(1)
        upload_steps_session [OF assms(2-6)] Let_def print_def)

lemma demo_clip:
  "path_exists (demo_env r) ''clip.mp4'' = Inr True"
  "map_of video_formats (lower (path_suffix ''clip.mp4'')) = Some ''video/mp4''"
  "stat_size (demo_env r) ''clip.mp4'' = Inr 5242880"
  "(5242880::nat) \<le> max_size"
  "read_bytes (demo_env r) ''clip.mp4'' = Inr ''0123456789''"
  "remote (demo_env r) = r"
  by (simp_all add: demo_env_def demo_suffix lower_mp4 video_formats_def max_size_def)

lemma demo_accessible:
  "allowed_dirs s = [''/srv/data''] \<Longrightarrow> is_file_accessible (demo_env r) s ''clip.mp4''"
  by (simp add: is_file_accessible_def demo_resolve)

lemma demo_chat_fields:
  "allowed_dirs demo_chat = [''/srv/data'']" "sent demo_chat = []" "printed demo_chat = []"
  "clock demo_chat = 0" "uploaded_files demo_chat = []" "conversation_history demo_chat = []"
  by (simp_all add: demo_chat_def)

lemma str_503: "str_nat 503 = ''503''" "str_nat 200 = ''200''"
  by (simp_all add: str_nat.simps digit_values)

theorem session_start_failure_witness:
  "upload_file_to_gemini (demo_env unavailable_remote) ''clip.mp4'' demo_chat =
     (JObj [(''error'', JStr ''Upload session failed: 503'')],
      demo_chat\<lparr>sent := [start_request demo_chat ''clip.mp4'' ''video/mp4'' 5242880],
                clock := 0,
                printed := [uploading_line 5242880,
                            ''Failed to start upload session: 503'',
                            ''Response: backend unavailable'']\<rparr>)"
proof -
  have a: "is_file_accessible (demo_env unavailable_remote) demo_chat ''clip.mp4''"
    by (rule demo_accessible) (rule demo_chat_fields)
  have r: "remote (demo_env unavailable_remote) (length (sent demo_chat)) =
             Responds 0 (plain_response 503 ''backend unavailable'')"
    by (simp add: demo_clip unavailable_remote_def)
  have c: "status_code (plain_response 503 ''backend unavailable'') \<noteq> 200 \<or>
           header_get (headers (plain_response 503 ''backend unavailable''))
             ''X-Goog-Upload-URL'' = None \<or>
           header_get (headers (plain_response 503 ''backend unavailable''))
             ''X-Goog-Upload-URL'' = Some []"
    by (simp add: plain_response_def)
  show ?thesis
    using session_start_failure [OF a demo_clip(1-4) r c]
    by (simp add: plain_response_def error_dict_def str_503 demo_chat_fields)
qed

text \<open>
  The error that is returned holds neither the status code nor the body when the
  upload URL is missing, and not the body when the status is not 200.
\<close>

theorem session_start_message_counterexample:
  "fst (upload_file_to_gemini (demo_env no_location_remote) ''clip.mp4'' demo_chat) =
     JObj [(''error'', JStr ''No upload URL received'')] \<and>
   \<not> contains (str_nat 200) ''No upload URL received'' \<and>
   \<not> contains ''oops'' ''No upload URL received'' \<and>
   fst (upload_file_to_gemini (demo_env unavailable_remote) ''clip.mp4'' demo_chat) =
     JObj [(''error'', JStr ''Upload session failed: 503'')] \<and>
   \<not> contains ''backend unavailable'' ''Upload session failed: 503''"
proof -
  have a: "is_file_accessible (demo_env r) demo_chat ''clip.mp4''" for r
    by (rule demo_accessible) (rule demo_chat_fields)
  have r1: "remote (demo_env no_location_remote) (length (sent demo_chat)) =
             Responds 0 (plain_response 200 ''oops'')"
    by (simp add: demo_clip no_location_remote_def)
  have r2: "remote (demo_env unavailable_remote) (length (sent demo_chat)) =
             Responds 0 (plain_response 503 ''backend unavailable'')"
    by (simp add: demo_clip unavailable_remote_def)
  have 1: "fst (upload_file_to_gemini (demo_env no_location_remote) ''clip.mp4'' demo_chat) =
             JObj [(''error'', JStr ''No upload URL received'')]"
    by (simp add: upload_file_to_gemini_def a upload_steps_session [OF demo_clip(1-4) r1]
          plain_response_def header_get_def error_dict_def)
  have 2: "fst (upload_file_to_gemini (demo_env unavailable_remote) ''clip.mp4'' demo_chat) =
             JObj [(''error'', JStr ''Upload session failed: 503'')]"
    by (simp add: upload_file_to_gemini_def a upload_steps_session [OF demo_clip(1-4) r2]
          plain_response_def error_dict_def str_503)
  have 3: "\<not> contains (str_nat 200) ''No upload URL received''"
    by (simp add: str_503)
  have 4: "\<not> contains ''oops'' ''No upload URL received''"
    by simp
  have 5: "\<not> contains ''backend unavailable'' ''Upload session failed: 503''"
    by simp
  show ?thesis using 1 2 3 4 5 by blast
qed

subsection \<open>The transfer and the wait\<close>

lemma accepted_file:
  assumes "accepted file_uri name a"
  obtains d r kvs fs where "a = Responds d r" and "status_code r = 200"
    and "json_body r = Inr (JObj kvs)" and "map_of kvs ''file'' = Some (JObj fs)"
    and "map_of fs ''uri'' = Some file_uri" and "map_of fs ''name'' = Some name"
  using assms unfolding accepted_def
  by (auto split: net_result.splits sum.splits json.splits option.splits)

lemma upload_content_accepted:
  assumes "read_bytes e file_path = Inr file_content"
    and "accepted file_uri name (remote e (length (sent s)))"
    and "truthy file_uri"
  shows "upload_content e file_path mime_type file_size upload_session_url s =
     (Inr (JObj [(''uri'', file_uri), (''mime_type'', JStr mime_type)]),
      snd (wait_for_file_processing e name 300
             (print (hourglass @ '' Processing video...'')
                (s\<lparr>sent := sent s @
                           [content_request upload_session_url file_size file_content],
                   clock := clock s + took (remote e (length (sent s))),
                   uploaded_files := dict_set (uploaded_files s) file_path
                      \<lparr> info_uri = file_uri, info_name = name,
                        info_mime_type = mime_type, info_size = file_size \<rparr>\<rparr>))))"
proof -
  from assms(2) obtain d r kvs fs where a: "remote e (length (sent s)) = Responds d r"
    and r: "status_code r = 200" "json_body r = Inr (JObj kvs)"
           "map_of kvs ''file'' = Some (JObj fs)"
           "map_of fs ''uri'' = Some file_uri" "map_of fs ''name'' = Some name"
    by (rule accepted_file)
  show ?thesis
    unfolding upload_content_def
    by (simp add: assms(1,3) a r http_responds and_then_def py_get_def Let_def)
qed

lemma wait_failed:
  assumes "truthy name" and "reports ''FAILED'' (remote e (length (sent s)))" and "0 < mw"
  shows "wait_for_file_processing e name mw s =
     (Failed, print (cross_mark @ '' Video processing failed'')
                (s\<lparr>sent := sent s @ [poll_request e s name],
                   clock := clock s + took (remote e (length (sent s)))\<rparr>))"
proof -
  from assms(2) obtain d r kvs where a: "remote e (length (sent s)) = Responds d r"
    and r: "status_code r = 200" "json_body r = Inr (JObj kvs)"
           "map_of kvs ''state'' = Some (JStr ''FAILED'')"
    by (rule reports_state)
  have "poll_loop e name mw (clock s) s =
     (Failed, print (cross_mark @ '' Video processing failed'')
                (s\<lparr>sent := sent s @ [poll_request e s name], clock := clock s + d\<rparr>))"
    by (subst poll_loop.simps)
       (simp add: assms(3) a r http_responds and_then_def py_get_def)
  then show ?thesis
    by (simp add: wait_for_file_processing_def assms(1) a)
qed

lemma wait_active:
  assumes "truthy name" and "reports ''ACTIVE'' (remote e (length (sent s)))" and "0 < mw"
  shows "wait_for_file_processing e name mw s =
     (Active, print (check_mark @ '' Video processing complete!'')
                (s\<lparr>sent := sent s @ [poll_request e s name],
                   clock := clock s + took (remote e (length (sent s)))\<rparr>))"
proof -
  from assms(2) obtain d r kvs where a: "remote e (length (sent s)) = Responds d r"
    and r: "status_code r = 200" "json_body r = Inr (JObj kvs)"
           "map_of kvs ''state'' = Some (JStr ''ACTIVE'')"
    by (rule reports_state)
  have "poll_loop e name mw (clock s) s =
     (Active, print (check_mark @ '' Video processing complete!'')
                (s\<lparr>sent := sent s @ [poll_request e s name], clock := clock s + d\<rparr>))"
    by (subst poll_loop.simps)
       (simp add: assms(3) a r http_responds and_then_def py_get_def)
  then show ?thesis
    by (simp add: wait_for_file_processing_def assms(1) a)
qed

lemma wait_processing_constant:
  assumes "truthy name"
    and "\<forall>n \<ge> length (sent s). reports ''PROCESSING'' (remote e n) \<and> took (remote e n) = d"
    and "\<forall>j<k. j * (d + 2000) < 1000 * mw"
    and "1000 * mw \<le> k * (d + 2000)"
  shows "wait_for_file_processing e name mw s =
           (TimedOut, print (warning_sign @ '' Processing timeout - continuing anyway'')
                        (s\<lparr>sent := sent s @ replicate k (poll_request e s name),
                           clock := clock s + k * (d + 2000)\<rparr>))"
proof -
  have "poll_loop e name mw (clock s) s =
         (TimedOut, s\<lparr>sent := sent s @ replicate k (poll_request e s name),
                       clock := clock s + k * (d + 2000)\<rparr>)"
    by (rule poll_loop_processing) (use assms in simp_all)
  then show ?thesis
    by (simp add: wait_for_file_processing_def assms(1))
qed

lemma session_opened_response:
  assumes "session_opened u a"
  obtains d r where "a = Responds d r" and "status_code r = 200" and "u \<noteq> []"
    and "header_get (headers r) ''X-Goog-Upload-URL'' = Some u"
  using assms unfolding session_opened_def by (auto split: net_result.splits)

lemma video_formats_extension:
  "map_of video_formats x = Some m \<Longrightarrow> x \<in> set video_extensions"
  by (auto simp: video_formats_def video_extensions_def split: if_splits)

lemma upload_reaches_wait:
  assumes "uploadable e s p mime_type file_size file_content"
    and "session_opened u (remote e (length (sent s)))"
    and "accepted file_uri name (remote e (Suc (length (sent s))))"
    and "truthy file_uri"
  shows "upload_file_to_gemini e p s =
     (JObj [(''uri'', file_uri), (''mime_type'', JStr mime_type)],
      snd (wait_for_file_processing e name 300
             (mid_state e s p mime_type file_size file_content u file_uri name)))"
proof -
  from assms(1) have u: "is_file_accessible e s p" "path_exists e p = Inr True"
    "map_of video_formats (lower (path_suffix p)) = Some mime_type"
    "stat_size e p = Inr file_size" "file_size \<le> max_size"
    "read_bytes e p = Inr file_content"
    by (simp_all add: uploadable_def)
  from assms(2) obtain d r where a: "remote e (length (sent s)) = Responds d r"
    and r: "status_code r = 200" "u \<noteq> []"
           "header_get (headers r) ''X-Goog-Upload-URL'' = Some u"
    by (rule session_opened_response)
  let ?s2 = "(print (uploading_line file_size) s)
                 \<lparr>sent := sent s @ [start_request s p mime_type file_size],
                  clock := clock s + d\<rparr>"
  have st: "upload_steps e p s = upload_content e p mime_type file_size u ?s2"
    by (simp add: upload_steps_session [OF u(2-5) a] r Let_def)
  have acc: "accepted file_uri name (remote e (length (sent ?s2)))"
    using assms(3) by simp
  note uc = upload_content_accepted [OF u(6) acc assms(4), of mime_type file_size u]
  have m: "print (hourglass @ '' Processing video...'')
             (?s2\<lparr>sent := sent ?s2 @ [content_request u file_size file_content],
                   clock := clock ?s2 + took (remote e (length (sent ?s2))),
                   uploaded_files := dict_set (uploaded_files ?s2) p
                      \<lparr> info_uri = file_uri, info_name = name,
                        info_mime_type = mime_type, info_size = file_size \<rparr>\<rparr>) =
           mid_state e s p mime_type file_size file_content u file_uri name"
    by (simp add: mid_state_def print_def a)
  show ?thesis
    unfolding upload_file_to_gemini_def st uc m
    by (simp add: u(1))
qed

lemma read_uploaded_video:
  assumes "uploadable e s p mime_type file_size file_content"
    and "upload_file_to_gemini e p s =
           (JObj [(''uri'', file_uri), (''mime_type'', JStr mime_type)], s')"
  shows "read_file_content e p s = (file_data_part file_uri mime_type, s')"
proof -
  from assms(1) have u: "is_file_accessible e s p" "path_exists e p = Inr True"
    "map_of video_formats (lower (path_suffix p)) = Some mime_type"
    by (simp_all add: uploadable_def)
  have v: "lower (path_suffix p) \<in> set video_extensions"
    by (rule video_formats_extension [OF u(3)])
  have "read_video e p s = (Inr (file_data_part file_uri mime_type), s')"
    by (simp add: read_video_def assms(2) py_in_def py_item_def and_then_def
          file_data_part_def)
  then show ?thesis
    by (simp add: read_file_content_def read_steps_def u(1,2) v)
qed

lemma mid_state_fields [simp]:
  "sent (mid_state e s p m n b u fu nm) =
     sent s @ [start_request s p m n, content_request u n b]"
  "printed (mid_state e s p m n b u fu nm) =
     printed s @ [uploading_line n, hourglass @ '' Processing video...'']"
  "uploaded_files (mid_state e s p m n b u fu nm) =
     dict_set (uploaded_files s) p
       \<lparr> info_uri = fu, info_name = nm, info_mime_type = m, info_size = n \<rparr>"
  "conversation_history (mid_state e s p m n b u fu nm) = conversation_history s"
  "poll_request e (mid_state e s p m n b u fu nm) nm = poll_request e s nm"
  by (simp_all add: mid_state_def poll_request_def)

lemma upload_after_failed:
  assumes "uploadable e s p mime_type file_size file_content"
    and "session_opened u (remote e (length (sent s)))"
    and "accepted file_uri name (remote e (Suc (length (sent s))))"
    and "truthy file_uri" and "truthy name"
    and "reports ''FAILED'' (remote e (Suc (Suc (length (sent s)))))"
  shows "\<exists>s'. wait_for_file_processing e name 300
                 (mid_state e s p mime_type file_size file_content u file_uri name) =
                 (Failed, s') \<and>
           upload_file_to_gemini e p s =
             (JObj [(''uri'', file_uri), (''mime_type'', JStr mime_type)], s') \<and>
           read_file_content e p s = (file_data_part file_uri mime_type, s') \<and>
           sent s' = sent s @ [start_request s p mime_type file_size,
                               content_request u file_size file_content,
                               poll_request e s name] \<and>
           uploaded_files s' = dict_set (uploaded_files s) p
             \<lparr> info_uri = file_uri, info_name = name,
               info_mime_type = mime_type, info_size = file_size \<rparr> \<and>
           last (printed s') = cross_mark @ '' Video processing failed'' \<and>
           conversation_history s' = conversation_history s"
proof -
  let ?m = "mid_state e s p mime_type file_size file_content u file_uri name"
  have f: "reports ''FAILED'' (remote e (length (sent ?m)))"
    using assms(6) by simp
  have w: "wait_for_file_processing e name 300 ?m =
     (Failed, print (cross_mark @ '' Video processing failed'')
                (?m\<lparr>sent := sent ?m @ [poll_request e ?m name],
                    clock := clock ?m + took (remote e (length (sent ?m)))\<rparr>))"
    by (rule wait_failed [OF assms(5) f]) simp
  let ?s' = "print (cross_mark @ '' Video processing failed'')
                (?m\<lparr>sent := sent ?m @ [poll_request e ?m name],
                    clock := clock ?m + took (remote e (length (sent ?m)))\<rparr>)"
  have up: "upload_file_to_gemini e p s =
             (JObj [(''uri'', file_uri), (''mime_type'', JStr mime_type)], ?s')"
    by (simp add: upload_reaches_wait [OF assms(1-4)] w)
  have rd: "read_file_content e p s = (file_data_part file_uri mime_type, ?s')"
    by (rule read_uploaded_video [OF assms(1) up])
  have "sent ?s' = sent s @ [start_request s p mime_type file_size,
                               content_request u file_size file_content,
                               poll_request e s name]"
    by simp
  moreover have "uploaded_files ?s' = dict_set (uploaded_files s) p
             \<lparr> info_uri = file_uri, info_name = name,
               info_mime_type = mime_type, info_size = file_size \<rparr>"
    by simp
  moreover have "last (printed ?s') = cross_mark @ '' Video processing failed''"
    by simp
  moreover have "conversation_history ?s' = conversation_history s"
    by simp
  ultimately show ?thesis using w up rd by blast
qed

lemma upload_after_processing_constant:
  assumes "uploadable e s p mime_type file_size file_content"
    and "session_opened u (remote e (length (sent s)))"
    and "accepted file_uri name (remote e (Suc (length (sent s))))"
    and "truthy file_uri" and "truthy name"
    and "\<forall>n \<ge> Suc (Suc (length (sent s))).
           reports ''PROCESSING'' (remote e n) \<and> took (remote e n) = d"
    and "\<forall>j<k. j * (d + 2000) < 1000 * 300"
    and "1000 * 300 \<le> k * (d + 2000)"
  shows "fst (wait_for_file_processing e name 300
                 (mid_state e s p mime_type file_size file_content u file_uri name)) =
           TimedOut"
    and "fst (upload_file_to_gemini e p s) =
           JObj [(''uri'', file_uri), (''mime_type'', JStr mime_type)]"
    and "sent (snd (upload_file_to_gemini e p s)) =
           sent s @ [start_request s p mime_type file_size,
                     content_request u file_size file_content] @
                    replicate k (poll_request e s name)"
proof -
  let ?m = "mid_state e s p mime_type file_size file_content u file_uri name"
  have a: "\<forall>n \<ge> length (sent ?m). reports ''PROCESSING'' (remote e n) \<and>
             took (remote e n) = d"
    using assms(6) by simp
  note w = wait_processing_constant [OF assms(5) a assms(7,8)]
  show "fst (wait_for_file_processing e name 300 ?m) = TimedOut"
    by (simp add: w)
  show "fst (upload_file_to_gemini e p s) =
           JObj [(''uri'', file_uri), (''mime_type'', JStr mime_type)]"
    by (simp add: upload_reaches_wait [OF assms(1-4)])
  show "sent (snd (upload_file_to_gemini e p s)) =
           sent s @ [start_request s p mime_type file_size,
                     content_request u file_size file_content] @
                    replicate k (poll_request e s name)"
    by (simp add: upload_reaches_wait [OF assms(1-4)] w)
qed

lemma demo_uploadable:
  "uploadable (demo_env r) demo_chat ''clip.mp4'' ''video/mp4'' 5242880 ''0123456789''"
  unfolding uploadable_def
  by (simp only: demo_clip demo_accessible [OF demo_chat_fields(1)] simp_thms)

lemma upload_remote_answers:
  "session_opened ''https://upload.example/session/1'' (upload_remote st d 0)"
  "accepted (JStr ''https://files.example/abc'') (JStr ''files/abc'') (upload_remote st d (Suc 0))"
  "2 \<le> n \<Longrightarrow> reports st (upload_remote st d n)"
  "2 \<le> n \<Longrightarrow> took (upload_remote st d n) = d"
  by (simp_all add: upload_remote_def session_opened_def accepted_def reports_def
        session_response_def file_response_def state_response_def json_response_def
        header_get_def lower_def lower_char_def)

subsection \<open>AccessGuard\<close>

text \<open>
  C5, as the code has it. \<open>is_file_accessible\<close> is true exactly when the path resolves
  and its resolved string has the string of an allowed directory as a prefix; it is
  false when the resolution raises. A path that resolves outside every allowed
  directory, such as \<open>../../etc/passwd\<close> from the root \<open>/srv/data\<close>, is not
  accessible. The function reads its arguments and changes nothing: it is a function
  to \<open>bool\<close>.
\<close>

theorem is_file_accessible_prefix:
  "(is_file_accessible e s p \<longleftrightarrow>
      (\<exists>r. path_resolve e p = Inr r \<and> (\<exists>d \<in> set (allowed_dirs s). prefix d r))) \<and>
   (\<forall>x. path_resolve e p = Inl x \<longrightarrow> \<not> is_file_accessible e s p)"
  by (auto simp: is_file_accessible_def list_ex_iff split: sum.splits)

lemma demo_resolve_null:
  "path_resolve (demo_env r) [CHR 0x00] = Inl (Exception ''embedded null byte'')"
  by (simp add: demo_env_def resolve_nolinks_def)

theorem is_file_accessible_prefix_witness:
  "is_file_accessible (demo_env (upload_remote ''ACTIVE'' 0)) demo_chat ''clip.mp4'' \<and>
   \<not> is_file_accessible (demo_env (upload_remote ''ACTIVE'' 0)) demo_chat ''../../etc/passwd'' \<and>
   \<not> is_file_accessible (demo_env (upload_remote ''ACTIVE'' 0)) demo_chat [CHR 0x00]"
proof -
  let ?e = "demo_env (upload_remote ''ACTIVE'' 0)"
  have 1: "is_file_accessible ?e demo_chat ''clip.mp4''"
    using is_file_accessible_prefix [of ?e demo_chat "''clip.mp4''"]
    by (simp add: demo_resolve demo_chat_fields)
  have 2: "\<not> is_file_accessible ?e demo_chat ''../../etc/passwd''"
    using is_file_accessible_prefix [of ?e demo_chat "''../../etc/passwd''"]
    by (simp add: demo_resolve demo_chat_fields)
  have 3: "\<not> is_file_accessible ?e demo_chat [CHR 0x00]"
    using is_file_accessible_prefix [of ?e demo_chat "[CHR 0x00]"]
    by (simp add: demo_resolve_null)
  show ?thesis using 1 2 3 by blast
qed

text \<open>
  The resolution does not ask whether the path exists: \<open>missing/x.txt\<close>, whose parent
  does not exist, resolves below the allowed directory and is accessible.
\<close>

theorem nonexistent_parent_counterexample:
  "path_exists (demo_env (upload_remote ''ACTIVE'' 0)) ''missing'' = Inr False \<and>
   path_resolve (demo_env (upload_remote ''ACTIVE'' 0)) ''missing/x.txt'' =
     Inr ''/srv/data/missing/x.txt'' \<and>
   is_file_accessible (demo_env (upload_remote ''ACTIVE'' 0)) demo_chat ''missing/x.txt''"
  by (simp add: is_file_accessible_def demo_resolve demo_chat_fields)
     (simp add: demo_env_def)

subsection \<open>ContentClassifier\<close>

lemma poll_loop_env:
  assumes "remote e' = remote e" and "repr e' = repr e"
  shows "poll_loop e' fn mw start s = poll_loop e fn mw start s"
proof (induction "start + 1000 * mw - clock s" arbitrary: s rule: less_induct)
  case less
  have p: "poll_request e' t fn = poll_request e t fn" for t
    by (cases fn) (simp_all add: poll_request_def py_str_def assms(2))
  show ?case
  proof (cases "clock s - start < 1000 * mw")
    case False
    then show ?thesis by (simp add: poll_done)
  next
    case True
    show ?thesis
    proof (cases "remote e (length (sent s))")
      case (Fails d x)
      then have "remote e' (length (sent s)) = Fails d x" by (simp add: assms(1))
      with Fails True show ?thesis
        by (simp add: poll_loop.simps [of _ _ _ _ s] http_fails p)
    next
      case (Responds d r)
      then have r': "remote e' (length (sent s)) = Responds d r" by (simp add: assms(1))
      let ?s1 = "sleep 2 (s\<lparr>sent := sent s @ [poll_request e s fn], clock := clock s + d\<rparr>)"
      have "start + 1000 * mw - clock ?s1 < start + 1000 * mw - clock s"
        using True by (simp add: sleep_def)
      then have ih: "poll_loop e' fn mw start ?s1 = poll_loop e fn mw start ?s1"
        by (rule less.hyps)
      show ?thesis
        by (simp add: poll_loop.simps [of _ _ _ _ s] True http_responds [OF Responds]
              http_responds [OF r'] p ih cong: sum.case_cong if_cong)
    qed
  qed
qed

lemma py_str_guess_type [simp]: "py_str (e\<lparr>guess_type := g\<rparr>) x = py_str e x"
  by (cases x) (simp_all add: py_str_def)

lemma http_guess_type [simp]: "http (e\<lparr>guess_type := g\<rparr>) q s = http e q s"
  by (simp add: http_def)

lemma accessible_guess_type [simp]:
  "is_file_accessible (e\<lparr>guess_type := g\<rparr>) s p = is_file_accessible e s p"
  by (simp add: is_file_accessible_def)

lemma poll_loop_guess_type [simp]:
  "poll_loop (e\<lparr>guess_type := g\<rparr>) fn mw start s = poll_loop e fn mw start s"
  by (rule poll_loop_env) simp_all

lemma wait_guess_type [simp]:
  "wait_for_file_processing (e\<lparr>guess_type := g\<rparr>) fn mw s =
   wait_for_file_processing e fn mw s"
  by (simp add: wait_for_file_processing_def)

lemma upload_content_guess_type [simp]:
  "upload_content (e\<lparr>guess_type := g\<rparr>) p m n u s = upload_content e p m n u s"
  by (simp add: upload_content_def cong: sum.case_cong prod.case_cong if_cong)

lemma upload_steps_guess_type [simp]:
  "upload_steps (e\<lparr>guess_type := g\<rparr>) p s = upload_steps e p s"
  by (simp add: upload_steps_def
        cong: sum.case_cong prod.case_cong option.case_cong if_cong)

lemma upload_guess_type_unused [simp]:
  "upload_file_to_gemini (e\<lparr>guess_type := g\<rparr>) p s = upload_file_to_gemini e p s"
  by (simp add: upload_file_to_gemini_def)

lemma read_video_guess_type_unused [simp]:
  "read_video (e\<lparr>guess_type := g\<rparr>) p s = read_video e p s"
  by (simp add: read_video_def cong: prod.case_cong if_cong)

lemma read_steps_category:
  assumes "path_exists e p = Inr True"
  shows "read_steps e p s =
     (case classify (guess_type e p) (path_suffix p) of
        Video \<Rightarrow> read_video e p s
      | TextLike \<Rightarrow> (read_as_text e p, s)
      | Image \<Rightarrow> (read_image e p (guess_type e p), s)
      | Opaque \<Rightarrow> (Inr (read_other p (guess_type e p)), s))"
  by (simp add: read_steps_def classify_def assms)

text \<open>
  C8. A path whose suffix, in lower case, is one of the eight video suffixes is a video
  whatever mime type is guessed: \<open>classify\<close> says \<open>Video\<close>, the result of
  \<open>read_file_content\<close> does not depend on the guess, and for a file that exists the
  function takes the video branch, the first test of the chain; the branches that read
  the file as text are not reached.
\<close>

theorem video_extension_is_video:
  assumes "lower (path_suffix p) \<in> set video_extensions"
  shows "classify mime_type (path_suffix p) = Video \<and>
         read_file_content (e\<lparr>guess_type := g\<rparr>) p s = read_file_content e p s \<and>
         (path_exists e p = Inr True \<longrightarrow> read_steps e p s = read_video e p s)"
proof -
  have 1: "classify mime_type (path_suffix p) = Video"
    by (simp add: classify_def assms)
  have 2: "read_steps (e\<lparr>guess_type := g\<rparr>) p s = read_steps e p s"
    by (simp add: read_steps_def assms Let_def cong: sum.case_cong if_cong)
  have 3: "read_file_content (e\<lparr>guess_type := g\<rparr>) p s = read_file_content e p s"
    by (simp add: read_file_content_def 2)
  have 4: "path_exists e p = Inr True \<longrightarrow> read_steps e p s = read_video e p s"
    by (simp add: read_steps_def assms)
  show ?thesis using 1 3 4 by blast
qed

theorem video_extension_is_video_witness:
  "lower (path_suffix ''clip.mp4'') \<in> set video_extensions \<and>
   classify (text_guess ''clip.mp4'') (path_suffix ''clip.mp4'') = Video \<and>
   read_file_content ((demo_env (upload_remote ''ACTIVE'' 0))\<lparr>guess_type := text_guess\<rparr>)
       ''clip.mp4'' demo_chat =
     read_file_content (demo_env (upload_remote ''ACTIVE'' 0)) ''clip.mp4'' demo_chat \<and>
   path_exists (demo_env (upload_remote ''ACTIVE'' 0)) ''clip.mp4'' = Inr True \<and>
   read_steps (demo_env (upload_remote ''ACTIVE'' 0)) ''clip.mp4'' demo_chat =
     read_video (demo_env (upload_remote ''ACTIVE'' 0)) ''clip.mp4'' demo_chat"
proof -
  have v: "lower (path_suffix ''clip.mp4'') \<in> set video_extensions"
    by (simp add: demo_suffix lower_mp4 video_extensions_def)
  from video_extension_is_video [OF v, where mime_type = "text_guess ''clip.mp4''"
      and e = "demo_env (upload_remote ''ACTIVE'' 0)" and g = text_guess and s = demo_chat]
  show ?thesis using v by (simp add: demo_clip)
qed

subsection \<open>The chat request\<close>

lemma call_steps_state:
  "\<exists>extra c. snd (call_steps e prompt s) =
     s\<lparr>conversation_history :=
           conversation_history s @ user_turn [text_part (JStr prompt)] # extra,
       sent := sent s @
         [generate_request (s\<lparr>conversation_history :=
                                conversation_history s @ [user_turn [text_part (JStr prompt)]]\<rparr>)],
       clock := c\<rparr>"
proof -
  let ?s1 = "s\<lparr>conversation_history :=
                 conversation_history s @ [user_turn [text_part (JStr prompt)]]\<rparr>"
  have n: "length (sent ?s1) = length (sent s)" by simp
  show ?thesis
  proof (cases "remote e (length (sent s))")
    case (Fails d x)
    then have "remote e (length (sent ?s1)) = Fails d x" by simp
    then have "call_steps e prompt s =
        (Inl x, ?s1\<lparr>sent := sent ?s1 @ [generate_request ?s1], clock := clock ?s1 + d\<rparr>)"
      by (simp add: call_steps_def Let_def http_fails)
    then have "snd (call_steps e prompt s) =
        s\<lparr>conversation_history :=
             conversation_history s @ user_turn [text_part (JStr prompt)] # [],
          sent := sent s @ [generate_request ?s1], clock := clock s + d\<rparr>"
      by simp
    then show ?thesis by blast
  next
    case (Responds d r)
    then have h: "http e (generate_request ?s1) ?s1 =
        (Inr r, ?s1\<lparr>sent := sent ?s1 @ [generate_request ?s1], clock := clock ?s1 + d\<rparr>)"
      by (simp add: http_responds)
    let ?s2 = "?s1\<lparr>sent := sent ?s1 @ [generate_request ?s1], clock := clock ?s1 + d\<rparr>"
    have "snd (call_steps e prompt s) = ?s2 \<or>
          (\<exists>t. snd (call_steps e prompt s) =
             ?s2\<lparr>conversation_history := conversation_history ?s2 @ [model_turn [text_part t]]\<rparr>)"
      unfolding call_steps_def Let_def h
      by (auto split: sum.splits option.splits)
    then show ?thesis
    proof
      assume "snd (call_steps e prompt s) = ?s2"
      then have "snd (call_steps e prompt s) =
        s\<lparr>conversation_history :=
             conversation_history s @ user_turn [text_part (JStr prompt)] # [],
          sent := sent s @ [generate_request ?s1], clock := clock s + d\<rparr>"
        by simp
      then show ?thesis by blast
    next
      assume "\<exists>t. snd (call_steps e prompt s) =
             ?s2\<lparr>conversation_history := conversation_history ?s2 @ [model_turn [text_part t]]\<rparr>"
      then obtain t where "snd (call_steps e prompt s) =
             ?s2\<lparr>conversation_history := conversation_history ?s2 @ [model_turn [text_part t]]\<rparr>"
        ..
      then have "snd (call_steps e prompt s) =
        s\<lparr>conversation_history :=
             conversation_history s @ user_turn [text_part (JStr prompt)] # [model_turn [text_part t]],
          sent := sent s @ [generate_request ?s1], clock := clock s + d\<rparr>"
        by simp
      then show ?thesis by blast
    qed
  qed
qed

lemma call_gemini_snd: "snd (call_gemini e prompt s) = snd (call_steps e prompt s)"
  by (simp add: call_gemini_def split: prod.splits sum.splits exn.splits)

lemma call_gemini_state:
  "\<exists>extra c. snd (call_gemini e prompt s) =
     s\<lparr>conversation_history :=
           conversation_history s @ user_turn [text_part (JStr prompt)] # extra,
       sent := sent s @
         [generate_request (s\<lparr>conversation_history :=
                                conversation_history s @ [user_turn [text_part (JStr prompt)]]\<rparr>)],
       clock := c\<rparr>"
  unfolding call_gemini_snd by (rule call_steps_state)


text \<open>
  C6. A send that gets status 200 with at least one candidate, the first of which has
  the text \<open>reply\<close>, returns that text and leaves exactly two new turns at the end of
  the history: the user turn with the prompt as its only part, then the model turn
  with the reply as its only part. With the prompt \<open>hello\<close> and the reply \<open>hi\<close> on an
  empty history these are the two turns of the store.
\<close>

theorem chat_round_trip:
  assumes "remote e (length (sent s)) = Responds d response"
    and "status_code response = 200"
    and "json_body response = Inr result"
    and "has_candidates result = Inr True"
    and "first_text result = Inr (JStr reply)"
  shows "fst (call_gemini e prompt s) = JStr reply \<and>
         conversation_history (snd (call_gemini e prompt s)) =
           conversation_history s @
             [user_turn [text_part (JStr prompt)], model_turn [text_part (JStr reply)]]"
proof -
  let ?s1 = "s\<lparr>conversation_history :=
                 conversation_history s @ [user_turn [text_part (JStr prompt)]]\<rparr>"
  have "remote e (length (sent ?s1)) = Responds d response" using assms(1) by simp
  then have h: "http e (generate_request ?s1) ?s1 =
      (Inr response, ?s1\<lparr>sent := sent ?s1 @ [generate_request ?s1], clock := clock ?s1 + d\<rparr>)"
    by (rule http_responds)
  have "call_steps e prompt s =
     (Inr (JStr reply),
      ?s1\<lparr>sent := sent ?s1 @ [generate_request ?s1], clock := clock ?s1 + d,
          conversation_history := conversation_history ?s1 @ [model_turn [text_part (JStr reply)]]\<rparr>)"
    unfolding call_steps_def Let_def h
    by (simp add: assms(2-5) and_then_def)
  then show ?thesis by (simp add: call_gemini_def)
qed


theorem chat_round_trip_witness:
  "fst (call_gemini (demo_env hi_remote) ''hello'' demo_chat) = JStr ''hi'' \<and>
   conversation_history (snd (call_gemini (demo_env hi_remote) ''hello'' demo_chat)) =
     [user_turn [text_part (JStr ''hello'')], model_turn [text_part (JStr ''hi'')]]"
proof -
  let ?j = "JObj [(''candidates'',
               JArr [JObj [(''content'',
                            JObj [(''parts'', JArr [JObj [(''text'', JStr ''hi'')]])])]])]"
  have a: "remote (demo_env hi_remote) (length (sent demo_chat)) =
             Responds 0 (candidate_response ''hi'')"
    by (simp add: demo_clip hi_remote_def)
  have b: "status_code (candidate_response ''hi'') = 200"
    by (simp add: candidate_response_def json_response_def)
  have c: "json_body (candidate_response ''hi'') = Inr ?j"
    by (simp add: candidate_response_def json_response_def)
  have d: "has_candidates ?j = Inr True"
    by (simp add: has_candidates_def py_in_def py_item_def py_len_def and_then_def)
  have f: "first_text ?j = Inr (JStr ''hi'')"
    by (simp add: first_text_def py_item_def py_first_def and_then_def)
  from chat_round_trip [OF a b c d f, of "''hello''"]
  show ?thesis by (simp add: demo_chat_fields)
qed


subsection \<open>The router\<close>

lemma prefix_clash:
  "prefix a u \<Longrightarrow> \<not> prefix a b \<Longrightarrow> \<not> prefix b a \<Longrightarrow> \<not> prefix b u"
  using prefix_same_cases by blast

lemma clear_not_earlier:
  assumes "prefix ''/clear'' u"
  shows "\<not> prefix ''/read '' u" and "\<not> prefix ''/ls'' u" and "\<not> prefix ''/list'' u"
    and "\<not> prefix ''/help'' u"
  by (rule prefix_clash [OF assms]; simp)+

lemma cleanup_not_earlier:
  assumes "prefix ''/cleanup'' u"
  shows "\<not> prefix ''/read '' u" and "\<not> prefix ''/ls'' u" and "\<not> prefix ''/list'' u"
    and "\<not> prefix ''/help'' u" and "\<not> prefix ''/clear'' u"
  by (rule prefix_clash [OF assms]; simp)+

lemma uploads_not_earlier:
  assumes "prefix ''/uploads'' u"
  shows "\<not> prefix ''/read '' u" and "\<not> prefix ''/ls'' u" and "\<not> prefix ''/list'' u"
    and "\<not> prefix ''/help'' u" and "\<not> prefix ''/clear'' u" and "\<not> prefix ''/cleanup'' u"
  by (rule prefix_clash [OF assms]; simp)+

lemma delete_frame:
  "uploaded_files (snd (delete_uploaded_file e n s)) = uploaded_files s"
  "conversation_history (snd (delete_uploaded_file e n s)) = conversation_history s"
  by (simp_all add: delete_uploaded_file_def http_def split: net_result.splits)

lemma cleanup_loop_frame:
  "conversation_history (snd (cleanup_loop e items cleaned s)) = conversation_history s \<and>
   uploaded_files (snd (cleanup_loop e items cleaned s)) =
     filter (\<lambda>kv. fst kv \<notin> set (map fst items)) (uploaded_files s)"
proof (induction items arbitrary: cleaned s)
  case Nil
  then show ?case by simp
next
  case (Cons item items)
  obtain file_path file_info where item: "item = (file_path, file_info)"
    by (cases item)
  show ?case
  proof (cases "truthy (info_name file_info)")
    case True
    obtain deleted s1 where d: "delete_uploaded_file e (info_name file_info) s = (deleted, s1)"
      by (cases "delete_uploaded_file e (info_name file_info) s")
    have f: "uploaded_files s1 = uploaded_files s"
            "conversation_history s1 = conversation_history s"
      using delete_frame [of e "info_name file_info" s] d by simp_all
    show ?thesis
      by (simp add: item True d Cons.IH f dict_del_def case_prod_unfold conj_commute)
  next
    case False
    show ?thesis
      by (simp add: item False Cons.IH dict_del_def case_prod_unfold conj_commute)
  qed
qed

text \<open>
  C7. An input that starts with \<open>/clear\<close> empties the history and leaves
  \<open>uploaded_files\<close> as it is; an input that starts with \<open>/cleanup\<close> empties
  \<open>uploaded_files\<close>, whatever the remote answers to the deletions, and leaves the
  history as it is.
\<close>

theorem clear_and_cleanup_frame:
  "(prefix ''/clear'' user_input \<longrightarrow>
      conversation_history (snd (process_message e user_input s)) = [] \<and>
      uploaded_files (snd (process_message e user_input s)) = uploaded_files s) \<and>
   (prefix ''/cleanup'' user_input \<longrightarrow>
      uploaded_files (snd (process_message e user_input s)) = [] \<and>
      conversation_history (snd (process_message e user_input s)) = conversation_history s)"
proof (intro conjI impI)
  assume c: "prefix ''/clear'' user_input"
  have "process_message e user_input s =
          (JStr (broom @ '' Conversation history cleared''), s\<lparr>conversation_history := []\<rparr>)"
    unfolding process_message_def
    by (simp only: c clear_not_earlier [OF c] if_False if_True simp_thms)
  then show "conversation_history (snd (process_message e user_input s)) = []"
    and "uploaded_files (snd (process_message e user_input s)) = uploaded_files s"
    by simp_all
next
  assume c: "prefix ''/cleanup'' user_input"
  have p: "process_message e user_input s =
          (case cleanup_loop e (uploaded_files s) 0 s of
             (cleaned, s1) \<Rightarrow>
               (JStr (broom @ '' Cleaned up '' @ str_nat cleaned @ '' uploaded files''), s1))"
    unfolding process_message_def
    by (simp only: c cleanup_not_earlier [OF c] if_False if_True simp_thms)
  have q: "snd (process_message e user_input s) = snd (cleanup_loop e (uploaded_files s) 0 s)"
    by (simp add: p split: prod.splits)
  show "uploaded_files (snd (process_message e user_input s)) = []"
    by (simp add: q cleanup_loop_frame)
  show "conversation_history (snd (process_message e user_input s)) = conversation_history s"
    by (simp add: q cleanup_loop_frame)
qed

text \<open>
  C9. For an input that starts with \<open>/uploads\<close>, when \<open>uploaded_files\<close> is not
  empty, \<open>process_message\<close> builds the listing, reaches the end of the function and
  returns \<open>None\<close>; the state is unchanged.
\<close>

theorem uploads_nonempty_returns_none:
  assumes "prefix ''/uploads'' user_input" and "uploaded_files s \<noteq> []"
  shows "process_message e user_input s = (JNull, s)"
  unfolding process_message_def
  by (simp only: assms uploads_not_earlier [OF assms(1)] if_False if_True simp_thms Let_def)

lemma busy_chat_fields:
  "conversation_history busy_chat = [user_turn [text_part (JStr ''hello'')]]"
  "uploaded_files busy_chat =
     [(''clip.mp4'',
       \<lparr> info_uri = JStr ''https://files.example/abc'', info_name = JStr ''files/abc'',
         info_mime_type = ''video/mp4'', info_size = 5242880 \<rparr>)]"
  by (simp_all add: busy_chat_def)

theorem clear_and_cleanup_frame_witness:
  "conversation_history (snd (process_message (demo_env hi_remote) ''/clear'' busy_chat)) = [] \<and>
   uploaded_files (snd (process_message (demo_env hi_remote) ''/clear'' busy_chat)) =
     uploaded_files busy_chat \<and>
   uploaded_files busy_chat \<noteq> [] \<and> conversation_history busy_chat \<noteq> [] \<and>
   uploaded_files (snd (process_message (demo_env hi_remote) ''/cleanup'' busy_chat)) = [] \<and>
   conversation_history (snd (process_message (demo_env hi_remote) ''/cleanup'' busy_chat)) =
     conversation_history busy_chat"
  using clear_and_cleanup_frame [of "''/clear''" "demo_env hi_remote" busy_chat]
    clear_and_cleanup_frame [of "''/cleanup''" "demo_env hi_remote" busy_chat]
  by (simp add: busy_chat_fields)

theorem uploads_nonempty_returns_none_witness:
  "process_message (demo_env hi_remote) ''/uploads'' busy_chat = (JNull, busy_chat) \<and>
   uploads_info (uploaded_files busy_chat) = [clapper_board @ '' clip.mp4 (5.0MB)'']"
proof -
  have a: "prefix ''/uploads'' ''/uploads''" by simp
  have b: "uploaded_files busy_chat \<noteq> []" by (simp add: busy_chat_fields)
  have c: "fmt_1f 5242880 1048576 = ''5.0''"
    by (simp add: fmt_1f_def round_half_even_def str_nat.simps digit_values)
  have d: "path_name ''clip.mp4'' = ''clip.mp4''"
    by (simp add: path_name_def components_def)
  from uploads_nonempty_returns_none [OF a b, of "demo_env hi_remote"]
  show ?thesis by (simp add: uploads_info_def busy_chat_fields c d)
qed

subsection \<open>The command \<open>/read\<close> after a failed processing\<close>

lemma read_command:
  assumes "prefix ''/read '' user_input"
    and "read_file_content e (strip (drop 6 user_input)) s = (file_content, s1)"
    and "truthy file_content"
  shows "\<exists>extra c. snd (process_message e user_input s) =
     s1\<lparr>conversation_history := conversation_history s1 @
           user_turn [file_content] #
           user_turn [text_part (JStr (''I'' @ [CHR 0x27] @ ''ve shared the file '' @
              strip (drop 6 user_input) @
              '' with you. Please analyze it and tell me about its contents.''))] # extra,
        sent := sent s1 @
          [generate_request (s1\<lparr>conversation_history := conversation_history s1 @
             [user_turn [file_content],
              user_turn [text_part (JStr (''I'' @ [CHR 0x27] @ ''ve shared the file '' @
                strip (drop 6 user_input) @
                '' with you. Please analyze it and tell me about its contents.''))]]\<rparr>)],
        clock := c\<rparr>"
proof -
  let ?msg = "''I'' @ [CHR 0x27] @ ''ve shared the file '' @ strip (drop 6 user_input) @
              '' with you. Please analyze it and tell me about its contents.''"
  let ?s2 = "s1\<lparr>conversation_history := conversation_history s1 @ [user_turn [file_content]]\<rparr>"
  have p: "process_message e user_input s = call_gemini e ?msg ?s2"
    unfolding process_message_def
    by (simp only: assms if_True Let_def prod.case)
  from call_gemini_state [of e ?msg ?s2] obtain extra c where
    "snd (call_gemini e ?msg ?s2) =
       ?s2\<lparr>conversation_history := conversation_history ?s2 @
             user_turn [text_part (JStr ?msg)] # extra,
           sent := sent ?s2 @
             [generate_request (?s2\<lparr>conversation_history :=
                conversation_history ?s2 @ [user_turn [text_part (JStr ?msg)]]\<rparr>)],
           clock := c\<rparr>"
    by blast
  then have "snd (process_message e user_input s) =
     s1\<lparr>conversation_history := conversation_history s1 @
           user_turn [file_content] # user_turn [text_part (JStr ?msg)] # extra,
        sent := sent s1 @
          [generate_request (s1\<lparr>conversation_history := conversation_history s1 @
             [user_turn [file_content], user_turn [text_part (JStr ?msg)]]\<rparr>)],
        clock := c\<rparr>"
    by (simp add: p)
  then show ?thesis by blast
qed

lemma strip_read_clip: "strip (drop 6 ''/read clip.mp4'') = ''clip.mp4''"
  by (simp add: strip_def is_space_def)

text \<open>
  The command \<open>/read clip.mp4\<close> against a remote whose first status poll reports
  \<open>FAILED\<close>: the wait ends as failed, \<open>read_file_content\<close> returns the file
  reference, and the first turn of the history afterwards holds it.
\<close>

theorem failed_processing_counterexample:
  "fst (wait_for_file_processing (demo_env (upload_remote ''FAILED'' 0)) (JStr ''files/abc'') 300
         (mid_state (demo_env (upload_remote ''FAILED'' 0)) demo_chat ''clip.mp4'' ''video/mp4''
            5242880 ''0123456789'' ''https://upload.example/session/1''
            (JStr ''https://files.example/abc'') (JStr ''files/abc''))) = Failed \<and>
   fst (read_file_content (demo_env (upload_remote ''FAILED'' 0)) ''clip.mp4'' demo_chat) =
     JObj [(''file_data'', JObj [(''file_uri'', JStr ''https://files.example/abc''),
                                 (''mime_type'', JStr ''video/mp4'')])] \<and>
   take 1 (conversation_history
             (snd (process_message (demo_env (upload_remote ''FAILED'' 0)) ''/read clip.mp4''
                     demo_chat))) =
     [user_turn [JObj [(''file_data'', JObj [(''file_uri'', JStr ''https://files.example/abc''),
                                             (''mime_type'', JStr ''video/mp4'')])]]]"
proof -
  let ?e = "demo_env (upload_remote ''FAILED'' 0)"
  let ?fd = "JObj [(''file_data'', JObj [(''file_uri'', JStr ''https://files.example/abc''),
                                 (''mime_type'', JStr ''video/mp4'')])]"
  have a: "session_opened ''https://upload.example/session/1''
             (remote ?e (length (sent demo_chat)))"
    by (simp add: demo_clip demo_chat_fields upload_remote_answers)
  have b: "accepted (JStr ''https://files.example/abc'') (JStr ''files/abc'')
             (remote ?e (Suc (length (sent demo_chat))))"
    by (simp add: demo_clip demo_chat_fields upload_remote_answers)
  have c: "reports ''FAILED'' (remote ?e (Suc (Suc (length (sent demo_chat)))))"
    by (simp add: demo_clip demo_chat_fields upload_remote_answers)
  have t: "truthy (JStr ''https://files.example/abc'')" "truthy (JStr ''files/abc'')"
    by simp_all
  from upload_after_failed [OF demo_uploadable a b t c] obtain s' where
    w: "wait_for_file_processing ?e (JStr ''files/abc'') 300
         (mid_state ?e demo_chat ''clip.mp4'' ''video/mp4''
            5242880 ''0123456789'' ''https://upload.example/session/1''
            (JStr ''https://files.example/abc'') (JStr ''files/abc'')) = (Failed, s')"
    and r: "read_file_content ?e ''clip.mp4'' demo_chat =
              (file_data_part (JStr ''https://files.example/abc'') ''video/mp4'', s')"
    and h: "conversation_history s' = conversation_history demo_chat"
    by blast
  have r': "read_file_content ?e (strip (drop 6 ''/read clip.mp4'')) demo_chat = (?fd, s')"
    by (simp only: strip_read_clip r file_data_part_def)
  have pr: "prefix ''/read '' ''/read clip.mp4''" by simp
  have tr: "truthy ?fd" by simp
  from read_command [OF pr r' tr] obtain extra c where
    "snd (process_message ?e ''/read clip.mp4'' demo_chat) =
     s'\<lparr>conversation_history := conversation_history s' @
           user_turn [?fd] #
           user_turn [text_part (JStr (''I'' @ [CHR 0x27] @ ''ve shared the file '' @
              strip (drop 6 ''/read clip.mp4'') @
              '' with you. Please analyze it and tell me about its contents.''))] # extra,
        sent := sent s' @
          [generate_request (s'\<lparr>conversation_history := conversation_history s' @
             [user_turn [?fd],
              user_turn [text_part (JStr (''I'' @ [CHR 0x27] @ ''ve shared the file '' @
                strip (drop 6 ''/read clip.mp4'') @
                '' with you. Please analyze it and tell me about its contents.''))]]\<rparr>)],
        clock := c\<rparr>"
    by blast
  then have "conversation_history (snd (process_message ?e ''/read clip.mp4'' demo_chat)) =
      conversation_history s' @ user_turn [?fd] #
           user_turn [text_part (JStr (''I'' @ [CHR 0x27] @ ''ve shared the file '' @
              strip (drop 6 ''/read clip.mp4'') @
              '' with you. Please analyze it and tell me about its contents.''))] # extra"
    by simp
  then have 3: "take 1 (conversation_history
             (snd (process_message ?e ''/read clip.mp4'' demo_chat))) = [user_turn [?fd]]"
    by (simp add: h demo_chat_fields)
  have 1: "fst (wait_for_file_processing ?e (JStr ''files/abc'') 300
         (mid_state ?e demo_chat ''clip.mp4'' ''video/mp4''
            5242880 ''0123456789'' ''https://upload.example/session/1''
            (JStr ''https://files.example/abc'') (JStr ''files/abc''))) = Failed"
    by (simp add: w)
  have 2: "fst (read_file_content ?e ''clip.mp4'' demo_chat) = ?fd"
    by (simp add: r file_data_part_def)
  show ?thesis using 1 2 3 by blast
qed

subsection \<open>Polls that keep the loop waiting\<close>

lemma reports_keeps_waiting:
  assumes "reports st a" and "st \<noteq> ''ACTIVE''" and "st \<noteq> ''FAILED''"
  shows "keeps_waiting a"
proof -
  from assms(1) obtain d r kvs where "a = Responds d r" and "status_code r = 200"
    and "json_body r = Inr (JObj kvs)" and "map_of kvs ''state'' = Some (JStr st)"
    by (rule reports_state)
  then show ?thesis
    by (simp add: keeps_waiting_def and_then_def py_get_def assms(2,3))
qed

lemma poll_step_waiting:
  assumes "keeps_waiting (remote e (length (sent s)))"
    and "clock s - start < 1000 * mw"
  shows "poll_loop e fn mw start s =
         poll_loop e fn mw start
           (s\<lparr>sent := sent s @ [poll_request e s fn],
              clock := clock s + (took (remote e (length (sent s))) + 2000)\<rparr>)"
proof (cases "remote e (length (sent s))")
  case (Fails d x)
  with assms(1) show ?thesis by (simp add: keeps_waiting_def)
next
  case (Responds d r)
  show ?thesis
  proof (cases "status_code r = 200")
    case False
    show ?thesis
      by (subst poll_loop.simps)
         (simp add: assms(2) Responds False http_responds sleep_def add.assoc)
  next
    case True
    with assms(1) Responds obtain state where
      st: "and_then (json_body r) (\<lambda>result. py_get result ''state'' (JStr ''PROCESSING'')) =
             Inr state"
      and ne: "state \<noteq> JStr ''ACTIVE''" "state \<noteq> JStr ''FAILED''"
      by (auto simp: keeps_waiting_def split: sum.splits)
    show ?thesis
      by (subst poll_loop.simps)
         (simp add: assms(2) Responds True http_responds sleep_def st ne add.assoc)
  qed
qed

lemma waited_ge: "2000 * j \<le> waited e n j"
proof (induction j arbitrary: n)
  case 0
  show ?case by simp
next
  case (Suc j)
  have "2000 * Suc j = 2000 + 2000 * j" by simp
  also have "\<dots> \<le> 2000 + waited e (Suc n) j" using Suc.IH [of "Suc n"] by simp
  also have "\<dots> \<le> waited e n (Suc j)" by simp
  finally show ?case .
qed

lemma waited_step: "waited e n j \<le> waited e n (Suc j)"
proof (induction j arbitrary: n)
  case 0
  show ?case by simp
next
  case (Suc j)
  have "waited e n (Suc j) = took (remote e n) + 2000 + waited e (Suc n) j" by simp
  also have "\<dots> \<le> took (remote e n) + 2000 + waited e (Suc n) (Suc j)"
    using Suc.IH [of "Suc n"] by (simp only: add_le_cancel_left)
  also have "\<dots> = waited e n (Suc (Suc j))" by simp
  finally show ?case .
qed

lemma waited_mono: "i \<le> j \<Longrightarrow> waited e n i \<le> waited e n j"
proof (induction j)
  case 0
  then show ?case by simp
next
  case (Suc j)
  show ?case
  proof (cases "i = Suc j")
    case True
    then show ?thesis by simp
  next
    case False
    with Suc.prems have "i \<le> j" by simp
    then have "waited e n i \<le> waited e n j" by (rule Suc.IH)
    also have "\<dots> \<le> waited e n (Suc j)" by (rule waited_step)
    finally show ?thesis .
  qed
qed

lemma waited_constant:
  "(\<forall>i. took (remote e (n + i)) = d) \<Longrightarrow> waited e n j = j * (d + 2000)"
proof (induction j arbitrary: n)
  case 0
  show ?case by simp
next
  case (Suc j)
  define w where "w = d + 2000"
  have t: "took (remote e n) = d" using Suc.prems [rule_format, of 0] by simp
  have "\<forall>i. took (remote e (Suc n + i)) = d"
  proof
    fix i
    show "took (remote e (Suc n + i)) = d" using Suc.prems [rule_format, of "Suc i"] by simp
  qed
  then have "waited e (Suc n) j = j * (d + 2000)" by (rule Suc.IH)
  then have "waited e (Suc n) j = j * w" by (simp only: w_def)
  moreover have "waited e n (Suc j) = w + waited e (Suc n) j"
    by (simp add: t w_def)
  ultimately have "waited e n (Suc j) = Suc j * w" by simp
  then show ?case by (simp only: w_def)
qed

text \<open>The rounds as a sum: the requests' times and two seconds for each round.\<close>

lemma waited_sum: "waited e n j = (\<Sum>i<j. took (remote e (n + i))) + 2000 * j"
proof (induction j arbitrary: n)
  case 0
  show ?case by simp
next
  case (Suc j)
  define c :: nat where "c = 2000"
  have ih: "waited e (Suc n) j = (\<Sum>i<j. took (remote e (Suc n + i))) + c * j"
    using Suc.IH [of "Suc n"] by (simp only: c_def)
  have sh: "(\<Sum>i<Suc j. took (remote e (n + i))) =
            took (remote e n) + (\<Sum>i<j. took (remote e (Suc n + i)))"
    by (subst sum.lessThan_Suc_shift) simp
  have "waited e n (Suc j) = took (remote e n) + c + waited e (Suc n) j"
    by (simp add: c_def)
  also have "\<dots> = (\<Sum>i<Suc j. took (remote e (n + i))) + c * Suc j"
    by (simp only: ih sh mult_Suc_right)
  finally show ?case by (simp only: c_def)
qed

lemma poll_failed_now:
  assumes "reports ''FAILED'' (remote e (length (sent s)))" and "clock s - start < 1000 * mw"
  shows "poll_loop e fn mw start s =
     (Failed, print (cross_mark @ '' Video processing failed'')
                (s\<lparr>sent := sent s @ [poll_request e s fn],
                   clock := clock s + took (remote e (length (sent s)))\<rparr>))"
proof -
  from assms(1) obtain d r kvs where a: "remote e (length (sent s)) = Responds d r"
    and r: "status_code r = 200" "json_body r = Inr (JObj kvs)"
           "map_of kvs ''state'' = Some (JStr ''FAILED'')"
    by (rule reports_state)
  show ?thesis
    by (subst poll_loop.simps)
       (simp add: assms(2) a r http_responds and_then_def py_get_def)
qed

lemma poll_loop_failed_after:
  assumes "\<forall>i<j. keeps_waiting (remote e (length (sent s) + i))"
    and "reports ''FAILED'' (remote e (length (sent s) + j))"
    and "clock s - start + waited e (length (sent s)) j < 1000 * mw"
    and "start \<le> clock s"
  shows "poll_loop e fn mw start s =
     (Failed, print (cross_mark @ '' Video processing failed'')
                (s\<lparr>sent := sent s @ replicate (Suc j) (poll_request e s fn),
                   clock := clock s + waited e (length (sent s)) j +
                            took (remote e (length (sent s) + j))\<rparr>))"
  using assms
proof (induction j arbitrary: s)
  case 0
  then show ?case by (simp add: poll_failed_now)
next
  case (Suc j)
  define d where "d = took (remote e (length (sent s))) + 2000"
  define W where "W = waited e (Suc (length (sent s))) j"
  let ?s = "s\<lparr>sent := sent s @ [poll_request e s fn], clock := clock s + d\<rparr>"
  have wS: "waited e (length (sent s)) (Suc j) = d + W"
    by (simp add: d_def W_def)
  have tm: "clock s - start + (d + W) < 1000 * mw"
    using Suc.prems(3) by (simp only: wS)
  then have lt: "clock s - start < 1000 * mw" by linarith
  have kw: "keeps_waiting (remote e (length (sent s)))"
    using Suc.prems(1) [rule_format, of 0] by simp
  have step: "poll_loop e fn mw start s = poll_loop e fn mw start ?s"
    using poll_step_waiting [OF kw lt, of fn] by (simp only: d_def)
  have a1: "\<forall>i<j. keeps_waiting (remote e (length (sent ?s) + i))"
  proof (intro allI impI)
    fix i assume "i < j"
    then have "Suc i < Suc j" by simp
    from Suc.prems(1) [rule_format, OF this]
    show "keeps_waiting (remote e (length (sent ?s) + i))" by simp
  qed
  have a2: "reports ''FAILED'' (remote e (length (sent ?s) + j))"
    using Suc.prems(2) by simp
  have cs: "clock ?s - start = clock s - start + d" using Suc.prems(4) by simp
  have a3: "clock ?s - start + waited e (length (sent ?s)) j < 1000 * mw"
    using tm by (simp add: cs W_def add.assoc)
  have a4: "start \<le> clock ?s" using Suc.prems(4) by simp
  have "poll_loop e fn mw start ?s =
     (Failed, print (cross_mark @ '' Video processing failed'')
                (?s\<lparr>sent := sent ?s @ replicate (Suc j) (poll_request e ?s fn),
                    clock := clock ?s + waited e (length (sent ?s)) j +
                             took (remote e (length (sent ?s) + j))\<rparr>))"
    by (rule Suc.IH [OF a1 a2 a3 a4])
  then show ?case
    unfolding step
    by (simp add: d_def add.assoc)
qed

lemma poll_loop_times_out:
  assumes "\<forall>n \<ge> length (sent s). keeps_waiting (remote e n)"
    and "start \<le> clock s"
  shows "\<exists>k. poll_loop e fn mw start s =
           (TimedOut, s\<lparr>sent := sent s @ replicate k (poll_request e s fn),
                         clock := clock s + waited e (length (sent s)) k\<rparr>) \<and>
           (\<forall>i<k. clock s - start + waited e (length (sent s)) i < 1000 * mw) \<and>
           1000 * mw \<le> clock s - start + waited e (length (sent s)) k"
  using assms
proof (induction "start + 1000 * mw - clock s" arbitrary: s rule: less_induct)
  case less
  show ?case
  proof (cases "clock s - start < 1000 * mw")
    case False
    then have "poll_loop e fn mw start s =
       (TimedOut, s\<lparr>sent := sent s @ replicate 0 (poll_request e s fn),
                     clock := clock s + waited e (length (sent s)) 0\<rparr>)"
      by (simp add: poll_done)
    moreover have "\<forall>i<(0::nat). clock s - start + waited e (length (sent s)) i < 1000 * mw"
      by simp
    moreover have "1000 * mw \<le> clock s - start + waited e (length (sent s)) 0"
      using False by simp
    ultimately show ?thesis by blast
  next
    case True
    define d where "d = took (remote e (length (sent s))) + 2000"
    let ?s = "s\<lparr>sent := sent s @ [poll_request e s fn], clock := clock s + d\<rparr>"
    have kw: "keeps_waiting (remote e (length (sent s)))"
      using less.prems(1) by simp
    have step: "poll_loop e fn mw start s = poll_loop e fn mw start ?s"
      using poll_step_waiting [OF kw True, of fn] by (simp only: d_def)
    have "0 < d" by (simp add: d_def)
    then have ms: "start + 1000 * mw - clock ?s < start + 1000 * mw - clock s"
      using True less.prems(2) by simp
    have p1: "\<forall>n \<ge> length (sent ?s). keeps_waiting (remote e n)"
      using less.prems(1) by simp
    have p2: "start \<le> clock ?s" using less.prems(2) by simp
    have cs: "clock ?s - start = clock s - start + d" using less.prems(2) by simp
    from less.hyps [OF ms p1 p2] obtain k where
      k: "poll_loop e fn mw start ?s =
            (TimedOut, ?s\<lparr>sent := sent ?s @ replicate k (poll_request e ?s fn),
                           clock := clock ?s + waited e (length (sent ?s)) k\<rparr>)"
      and b1: "\<forall>i<k. clock ?s - start + waited e (length (sent ?s)) i < 1000 * mw"
      and b2: "1000 * mw \<le> clock ?s - start + waited e (length (sent ?s)) k"
      by blast
    have wS: "waited e (length (sent s)) (Suc i) = d + waited e (Suc (length (sent s))) i" for i
      by (simp add: d_def)
    have r1: "poll_loop e fn mw start s =
            (TimedOut, s\<lparr>sent := sent s @ replicate (Suc k) (poll_request e s fn),
                          clock := clock s + waited e (length (sent s)) (Suc k)\<rparr>)"
      unfolding step k by (simp add: wS add.assoc replicate_app_Cons_same del: waited.simps)
    have r2: "\<forall>i<Suc k. clock s - start + waited e (length (sent s)) i < 1000 * mw"
    proof (intro allI impI)
      fix i assume i: "i < Suc k"
      show "clock s - start + waited e (length (sent s)) i < 1000 * mw"
      proof (cases i)
        case 0
        then show ?thesis using True by simp
      next
        case (Suc i')
        with i have "i' < k" by simp
        from b1 [rule_format, OF this]
        have "clock ?s - start + waited e (length (sent ?s)) i' < 1000 * mw" .
        then have "clock s - start + d + waited e (length (sent ?s)) i' < 1000 * mw"
          by (simp only: cs)
        then have "clock s - start + d + waited e (Suc (length (sent s))) i' < 1000 * mw"
          by simp
        then show ?thesis unfolding Suc wS by (simp only: add.assoc)
      qed
    qed
    have r3: "1000 * mw \<le> clock s - start + waited e (length (sent s)) (Suc k)"
    proof -
      from b2 have "1000 * mw \<le> clock s - start + d + waited e (length (sent ?s)) k"
        by (simp only: cs)
      then have "1000 * mw \<le> clock s - start + d + waited e (Suc (length (sent s))) k"
        by simp
      then show ?thesis unfolding wS by (simp only: add.assoc)
    qed
    from r1 r2 r3 show ?thesis by blast
  qed
qed

subsection \<open>The end of the wait\<close>

lemma wait_failed_after:
  assumes "truthy name"
    and "\<forall>i<j. keeps_waiting (remote e (length (sent s) + i))"
    and "reports ''FAILED'' (remote e (length (sent s) + j))"
    and "waited e (length (sent s)) j < 1000 * mw"
  shows "wait_for_file_processing e name mw s =
     (Failed, print (cross_mark @ '' Video processing failed'')
                (s\<lparr>sent := sent s @ replicate (Suc j) (poll_request e s name),
                   clock := clock s + waited e (length (sent s)) j +
                            took (remote e (length (sent s) + j))\<rparr>))"
proof -
  have t: "clock s - clock s + waited e (length (sent s)) j < 1000 * mw"
    using assms(4) by simp
  have "poll_loop e name mw (clock s) s =
     (Failed, print (cross_mark @ '' Video processing failed'')
                (s\<lparr>sent := sent s @ replicate (Suc j) (poll_request e s name),
                   clock := clock s + waited e (length (sent s)) j +
                            took (remote e (length (sent s) + j))\<rparr>))"
    by (rule poll_loop_failed_after [OF assms(2,3) t]) simp
  then show ?thesis
    by (simp only: wait_for_file_processing_def assms(1) simp_thms if_False
          prod.case poll_exit.case)
qed

lemma wait_times_out:
  assumes "truthy name" and "\<forall>n \<ge> length (sent s). keeps_waiting (remote e n)"
  shows "\<exists>k. wait_for_file_processing e name mw s =
           (TimedOut, print (warning_sign @ '' Processing timeout - continuing anyway'')
                        (s\<lparr>sent := sent s @ replicate k (poll_request e s name),
                           clock := clock s + waited e (length (sent s)) k\<rparr>)) \<and>
           (\<forall>i<k. waited e (length (sent s)) i < 1000 * mw) \<and>
           1000 * mw \<le> waited e (length (sent s)) k"
proof -
  have le: "clock s \<le> clock s" by simp
  from poll_loop_times_out [OF assms(2) le, of name mw] obtain k where
    p: "poll_loop e name mw (clock s) s =
           (TimedOut, s\<lparr>sent := sent s @ replicate k (poll_request e s name),
                         clock := clock s + waited e (length (sent s)) k\<rparr>)"
    and b1: "\<forall>i<k. clock s - clock s + waited e (length (sent s)) i < 1000 * mw"
    and b2: "1000 * mw \<le> clock s - clock s + waited e (length (sent s)) k"
    by blast
  have "wait_for_file_processing e name mw s =
           (TimedOut, print (warning_sign @ '' Processing timeout - continuing anyway'')
                        (s\<lparr>sent := sent s @ replicate k (poll_request e s name),
                           clock := clock s + waited e (length (sent s)) k\<rparr>))"
    by (simp only: wait_for_file_processing_def assms(1) simp_thms if_False p
          prod.case poll_exit.case)
  moreover from b1 have "\<forall>i<k. waited e (length (sent s)) i < 1000 * mw" by simp
  moreover from b2 have "1000 * mw \<le> waited e (length (sent s)) k" by simp
  ultimately show ?thesis by blast
qed

text \<open>The number of rounds after which the waited time first reaches the limit.\<close>

lemma rounds_bounds:
  assumes "\<forall>i<k. waited e n i < 300000" and "300000 \<le> waited e n k"
  shows "1 \<le> k" and "k \<le> 150" and "k = 150 \<longleftrightarrow> waited e n 149 < 300000"
proof -
  show 1: "1 \<le> k"
  proof (cases k)
    case 0
    with assms(2) show ?thesis by simp
  next
    case (Suc k')
    then show ?thesis by simp
  qed
  then obtain k' where k': "k = Suc k'" by (cases k) simp_all
  have "waited e n k' < 300000" using assms(1) k' by simp
  moreover have "2000 * k' \<le> waited e n k'" by (rule waited_ge)
  ultimately have "2000 * k' < 300000" by (rule le_less_trans [rotated])
  then have "k' < 150" by simp
  then show 2: "k \<le> 150" using k' by simp
  show "k = 150 \<longleftrightarrow> waited e n 149 < 300000"
  proof
    assume "k = 150"
    then show "waited e n 149 < 300000" using assms(1) by simp
  next
    assume w: "waited e n 149 < 300000"
    show "k = 150"
    proof (rule ccontr)
      assume "k \<noteq> 150"
      with 2 have "k \<le> 149" by simp
      then have "waited e n k \<le> waited e n 149" by (rule waited_mono)
      with w assms(2) show False by simp
    qed
  qed
qed


lemma upload_after_late_failure:
  assumes "uploadable e s p mime_type file_size file_content"
    and "session_opened u (remote e (length (sent s)))"
    and "accepted file_uri name (remote e (Suc (length (sent s))))"
    and "truthy file_uri" and "truthy name"
    and "\<forall>i<j. keeps_waiting (remote e (Suc (Suc (length (sent s))) + i))"
    and "reports ''FAILED'' (remote e (Suc (Suc (length (sent s))) + j))"
    and "waited e (Suc (Suc (length (sent s)))) j < 1000 * 300"
  shows "\<exists>s'. wait_for_file_processing e name 300
                 (mid_state e s p mime_type file_size file_content u file_uri name) =
                 (Failed, s') \<and>
           upload_file_to_gemini e p s =
             (JObj [(''uri'', file_uri), (''mime_type'', JStr mime_type)], s') \<and>
           read_file_content e p s = (file_data_part file_uri mime_type, s') \<and>
           sent s' = sent s @ [start_request s p mime_type file_size,
                               content_request u file_size file_content] @
                             replicate (Suc j) (poll_request e s name) \<and>
           uploaded_files s' = dict_set (uploaded_files s) p
             \<lparr> info_uri = file_uri, info_name = name,
               info_mime_type = mime_type, info_size = file_size \<rparr> \<and>
           last (printed s') = cross_mark @ '' Video processing failed'' \<and>
           conversation_history s' = conversation_history s"
proof -
  let ?m = "mid_state e s p mime_type file_size file_content u file_uri name"
  have n: "length (sent ?m) = Suc (Suc (length (sent s)))" by simp
  have f1: "\<forall>i<j. keeps_waiting (remote e (length (sent ?m) + i))"
    using assms(6) by (simp only: n)
  have f2: "reports ''FAILED'' (remote e (length (sent ?m) + j))"
    using assms(7) by (simp only: n)
  have f3: "waited e (length (sent ?m)) j < 1000 * 300"
    using assms(8) by (simp only: n)
  note w = wait_failed_after [OF assms(5) f1 f2 f3]
  let ?s' = "print (cross_mark @ '' Video processing failed'')
                (?m\<lparr>sent := sent ?m @ replicate (Suc j) (poll_request e ?m name),
                    clock := clock ?m + waited e (length (sent ?m)) j +
                             took (remote e (length (sent ?m) + j))\<rparr>)"
  have up: "upload_file_to_gemini e p s =
             (JObj [(''uri'', file_uri), (''mime_type'', JStr mime_type)], ?s')"
    by (simp only: upload_reaches_wait [OF assms(1-4)] w snd_conv)
  have rd: "read_file_content e p s = (file_data_part file_uri mime_type, ?s')"
    by (rule read_uploaded_video [OF assms(1) up])
  have "sent ?s' = sent s @ [start_request s p mime_type file_size,
                               content_request u file_size file_content] @
                             replicate (Suc j) (poll_request e s name)"
    by simp
  moreover have "uploaded_files ?s' = dict_set (uploaded_files s) p
             \<lparr> info_uri = file_uri, info_name = name,
               info_mime_type = mime_type, info_size = file_size \<rparr>"
    by simp
  moreover have "last (printed ?s') = cross_mark @ '' Video processing failed''"
    by simp
  moreover have "conversation_history ?s' = conversation_history s"
    by simp
  ultimately show ?thesis using w up rd by blast
qed

lemma upload_after_endless_processing:
  assumes "uploadable e s p mime_type file_size file_content"
    and "session_opened u (remote e (length (sent s)))"
    and "accepted file_uri name (remote e (Suc (length (sent s))))"
    and "truthy file_uri" and "truthy name"
    and "\<forall>n \<ge> Suc (Suc (length (sent s))). reports ''PROCESSING'' (remote e n)"
  shows "\<exists>k s'. wait_for_file_processing e name 300
                 (mid_state e s p mime_type file_size file_content u file_uri name) =
                 (TimedOut, s') \<and>
           upload_file_to_gemini e p s =
             (JObj [(''uri'', file_uri), (''mime_type'', JStr mime_type)], s') \<and>
           read_file_content e p s = (file_data_part file_uri mime_type, s') \<and>
           sent s' = sent s @ [start_request s p mime_type file_size,
                               content_request u file_size file_content] @
                             replicate k (poll_request e s name) \<and>
           clock s' = clock s + took (remote e (length (sent s))) +
                      took (remote e (Suc (length (sent s)))) +
                      waited e (Suc (Suc (length (sent s)))) k \<and>
           (\<forall>i<k. waited e (Suc (Suc (length (sent s)))) i < 300000) \<and>
           300000 \<le> waited e (Suc (Suc (length (sent s)))) k \<and>
           1 \<le> k \<and> k \<le> 150 \<and>
           (k = 150 \<longleftrightarrow> waited e (Suc (Suc (length (sent s)))) 149 < 300000) \<and>
           (k = 150 \<longleftrightarrow>
              (\<Sum>i<149. took (remote e (Suc (Suc (length (sent s))) + i))) < 2000) \<and>
           ((\<forall>n \<ge> Suc (Suc (length (sent s))). took (remote e n) = 0) \<longrightarrow> k = 150) \<and>
           uploaded_files s' = dict_set (uploaded_files s) p
             \<lparr> info_uri = file_uri, info_name = name,
               info_mime_type = mime_type, info_size = file_size \<rparr> \<and>
           last (printed s') = warning_sign @ '' Processing timeout - continuing anyway'' \<and>
           conversation_history s' = conversation_history s"
proof -
  let ?m = "mid_state e s p mime_type file_size file_content u file_uri name"
  let ?line = "warning_sign @ '' Processing timeout - continuing anyway''"
  let ?n = "Suc (Suc (length (sent s)))"
  have n: "length (sent ?m) = ?n" by simp
  have kw: "\<forall>n \<ge> length (sent ?m). keeps_waiting (remote e n)"
  proof (intro allI impI)
    fix i assume "length (sent ?m) \<le> i"
    then have "?n \<le> i" by (simp only: n)
    with assms(6) have "reports ''PROCESSING'' (remote e i)" by blast
    then show "keeps_waiting (remote e i)" by (rule reports_keeps_waiting) simp_all
  qed
  from wait_times_out [OF assms(5) kw, of 300] obtain k where
    w: "wait_for_file_processing e name 300 ?m =
          (TimedOut, print ?line
             (?m\<lparr>sent := sent ?m @ replicate k (poll_request e ?m name),
                 clock := clock ?m + waited e (length (sent ?m)) k\<rparr>))"
    and b1: "\<forall>i<k. waited e (length (sent ?m)) i < 1000 * 300"
    and b2: "1000 * 300 \<le> waited e (length (sent ?m)) k"
    by blast
  let ?s' = "print ?line
             (?m\<lparr>sent := sent ?m @ replicate k (poll_request e ?m name),
                 clock := clock ?m + waited e (length (sent ?m)) k\<rparr>)"
  have c1: "\<forall>i<k. waited e ?n i < 300000" using b1 by simp
  have c2: "300000 \<le> waited e ?n k" using b2 by simp
  note rb = rounds_bounds [OF c1 c2]
  have up: "upload_file_to_gemini e p s =
             (JObj [(''uri'', file_uri), (''mime_type'', JStr mime_type)], ?s')"
    by (simp only: upload_reaches_wait [OF assms(1-4)] w snd_conv)
  have rd: "read_file_content e p s = (file_data_part file_uri mime_type, ?s')"
    by (rule read_uploaded_video [OF assms(1) up])
  have "waited e ?n 149 = (\<Sum>i<149. took (remote e (?n + i))) + 2000 * 149"
    by (rule waited_sum)
  then have "waited e ?n 149 < 300000 \<longleftrightarrow>
             (\<Sum>i<149. took (remote e (?n + i))) < 2000"
    by simp
  with rb(3) have sm: "k = 150 \<longleftrightarrow> (\<Sum>i<149. took (remote e (?n + i))) < 2000"
    by simp
  have z: "(\<forall>n \<ge> ?n. took (remote e n) = 0) \<longrightarrow> k = 150"
  proof
    assume t: "\<forall>n \<ge> ?n. took (remote e n) = 0"
    have "\<forall>i. took (remote e (?n + i)) = 0"
    proof
      fix i
      have "?n \<le> ?n + i" by simp
      with t show "took (remote e (?n + i)) = 0" by blast
    qed
    then have "waited e ?n 149 = 149 * (0 + 2000)" by (rule waited_constant)
    then have "waited e ?n 149 < 300000" by simp
    with rb(3) show "k = 150" by blast
  qed
  have "sent ?s' = sent s @ [start_request s p mime_type file_size,
                               content_request u file_size file_content] @
                             replicate k (poll_request e s name)"
    by simp
  moreover have "clock ?s' = clock s + took (remote e (length (sent s))) +
                      took (remote e (Suc (length (sent s)))) + waited e ?n k"
    by (simp add: mid_state_def)
  moreover have "uploaded_files ?s' = dict_set (uploaded_files s) p
             \<lparr> info_uri = file_uri, info_name = name,
               info_mime_type = mime_type, info_size = file_size \<rparr>"
    by simp
  moreover have "last (printed ?s') = ?line"
    by simp
  moreover have "conversation_history ?s' = conversation_history s"
    by simp
  ultimately show ?thesis using w up rd c1 c2 rb sm z by blast
qed


subsection \<open>A remote state \<open>FAILED\<close>\<close>

text \<open>
  C1, as the code has it. When a status poll reports \<open>FAILED\<close>, be it the first poll
  or one that follows any number of polls that kept the loop waiting, the wait ends
  through its \<open>FAILED\<close> return with that poll as the last request: there is no retry.
  The uploader does not look at how the wait has ended: the entry in
  \<open>uploaded_files\<close> stays, and \<open>upload_file_to_gemini\<close> returns the URI and the mime
  type as it does after \<open>ACTIVE\<close>, so that \<open>read_file_content\<close> makes a file
  reference of them. (The poll is made only while the 300 seconds are not over, which
  is the last hypothesis.)
\<close>

theorem failed_processing_still_returns_reference:
  assumes "uploadable e s p mime_type file_size file_content"
    and "session_opened u (remote e (length (sent s)))"
    and "accepted file_uri name (remote e (Suc (length (sent s))))"
    and "truthy file_uri" and "truthy name"
    and "\<forall>i<j. keeps_waiting (remote e (Suc (Suc (length (sent s))) + i))"
    and "reports ''FAILED'' (remote e (Suc (Suc (length (sent s))) + j))"
    and "waited e (Suc (Suc (length (sent s)))) j < 1000 * 300"
  shows "\<exists>s'. wait_for_file_processing e name 300
                 (mid_state e s p mime_type file_size file_content u file_uri name) =
                 (Failed, s') \<and>
           upload_file_to_gemini e p s =
             (JObj [(''uri'', file_uri), (''mime_type'', JStr mime_type)], s') \<and>
           read_file_content e p s = (file_data_part file_uri mime_type, s') \<and>
           sent s' = sent s @ [start_request s p mime_type file_size,
                               content_request u file_size file_content] @
                             replicate (Suc j) (poll_request e s name) \<and>
           uploaded_files s' = dict_set (uploaded_files s) p
             \<lparr> info_uri = file_uri, info_name = name,
               info_mime_type = mime_type, info_size = file_size \<rparr> \<and>
           last (printed s') = cross_mark @ '' Video processing failed'' \<and>
           conversation_history s' = conversation_history s"
  using assms by (rule upload_after_late_failure)

lemma late_failure_remote_answers:
  "session_opened ''https://upload.example/session/1'' (late_failure_remote 0)"
  "accepted (JStr ''https://files.example/abc'') (JStr ''files/abc'')
     (late_failure_remote (Suc 0))"
  "reports ''PROCESSING'' (late_failure_remote (Suc (Suc 0)))"
  "reports ''PROCESSING'' (late_failure_remote (Suc (Suc (Suc 0))))"
  "reports ''FAILED'' (late_failure_remote (Suc (Suc (Suc (Suc 0)))))"
  "took (late_failure_remote (Suc (Suc 0))) = 500"
  "took (late_failure_remote (Suc (Suc (Suc 0)))) = 500"
  by (simp_all add: late_failure_remote_def session_opened_def accepted_def reports_def
        session_response_def file_response_def state_response_def json_response_def
        header_get_def lower_def lower_char_def)

theorem failed_processing_still_returns_reference_witness:
  "fst (upload_file_to_gemini (demo_env late_failure_remote) ''clip.mp4'' demo_chat) =
     JObj [(''uri'', JStr ''https://files.example/abc''), (''mime_type'', JStr ''video/mp4'')] \<and>
   sent (snd (upload_file_to_gemini (demo_env late_failure_remote) ''clip.mp4'' demo_chat)) =
     [start_request demo_chat ''clip.mp4'' ''video/mp4'' 5242880,
      content_request ''https://upload.example/session/1'' 5242880 ''0123456789'',
      poll_request (demo_env late_failure_remote) demo_chat (JStr ''files/abc''),
      poll_request (demo_env late_failure_remote) demo_chat (JStr ''files/abc''),
      poll_request (demo_env late_failure_remote) demo_chat (JStr ''files/abc'')] \<and>
   last (printed (snd (upload_file_to_gemini (demo_env late_failure_remote) ''clip.mp4''
                         demo_chat))) = cross_mark @ '' Video processing failed'' \<and>
   map (\<lambda>kv. fst kv) (uploaded_files (snd (upload_file_to_gemini
                        (demo_env late_failure_remote) ''clip.mp4'' demo_chat))) =
     [''clip.mp4'']"
proof -
  let ?e = "demo_env late_failure_remote"
  have a: "session_opened ''https://upload.example/session/1''
             (remote ?e (length (sent demo_chat)))"
    by (simp add: demo_clip demo_chat_fields late_failure_remote_answers)
  have b: "accepted (JStr ''https://files.example/abc'') (JStr ''files/abc'')
             (remote ?e (Suc (length (sent demo_chat))))"
    by (simp add: demo_clip demo_chat_fields late_failure_remote_answers)
  have c: "\<forall>i<Suc (Suc 0). keeps_waiting (remote ?e (Suc (Suc (length (sent demo_chat))) + i))"
  proof (intro allI impI)
    fix i :: nat assume "i < Suc (Suc 0)"
    then have "i = 0 \<or> i = Suc 0" by auto
    then have "reports ''PROCESSING'' (remote ?e (Suc (Suc (length (sent demo_chat))) + i))"
      by (auto simp: demo_clip demo_chat_fields late_failure_remote_answers)
    then show "keeps_waiting (remote ?e (Suc (Suc (length (sent demo_chat))) + i))"
      by (rule reports_keeps_waiting) simp_all
  qed
  have d: "reports ''FAILED''
             (remote ?e (Suc (Suc (length (sent demo_chat))) + Suc (Suc 0)))"
    by (simp add: demo_clip demo_chat_fields late_failure_remote_answers)
  have w: "waited ?e (Suc (Suc (length (sent demo_chat)))) (Suc (Suc 0)) < 1000 * 300"
    by (simp add: demo_clip demo_chat_fields late_failure_remote_answers)
  have t: "truthy (JStr ''https://files.example/abc'')" "truthy (JStr ''files/abc'')"
    by simp_all
  from failed_processing_still_returns_reference [OF demo_uploadable a b t c d w]
  show ?thesis by (auto simp: demo_chat_fields)
qed

subsection \<open>A remote state that stays \<open>PROCESSING\<close>\<close>

text \<open>
  C2, as the code has it. When every status poll reports \<open>PROCESSING\<close>, each poll is
  followed by a sleep of two seconds, so that \<open>i\<close> rounds take the time of their
  requests and two seconds each (\<open>waited\<close>); the wait ends by its time limit at the
  first number \<open>k\<close> of polls whose rounds have taken 300 seconds of wall clock. That
  is at least one poll and at most 150, and exactly 150 if and only if 149 rounds
  take less than 300 seconds, that is, the first 149 status requests take less than
  two seconds together; in particular when the requests take no time. The time-out is
  soft: the warning is printed, the entry in \<open>uploaded_files\<close> stays and the URI is
  returned.
\<close>

theorem processing_timeout_is_soft:
  assumes "uploadable e s p mime_type file_size file_content"
    and "session_opened u (remote e (length (sent s)))"
    and "accepted file_uri name (remote e (Suc (length (sent s))))"
    and "truthy file_uri" and "truthy name"
    and "\<forall>n \<ge> Suc (Suc (length (sent s))). reports ''PROCESSING'' (remote e n)"
  shows "\<exists>k s'. wait_for_file_processing e name 300
                 (mid_state e s p mime_type file_size file_content u file_uri name) =
                 (TimedOut, s') \<and>
           upload_file_to_gemini e p s =
             (JObj [(''uri'', file_uri), (''mime_type'', JStr mime_type)], s') \<and>
           read_file_content e p s = (file_data_part file_uri mime_type, s') \<and>
           sent s' = sent s @ [start_request s p mime_type file_size,
                               content_request u file_size file_content] @
                             replicate k (poll_request e s name) \<and>
           clock s' = clock s + took (remote e (length (sent s))) +
                      took (remote e (Suc (length (sent s)))) +
                      waited e (Suc (Suc (length (sent s)))) k \<and>
           (\<forall>i<k. waited e (Suc (Suc (length (sent s)))) i < 300000) \<and>
           300000 \<le> waited e (Suc (Suc (length (sent s)))) k \<and>
           1 \<le> k \<and> k \<le> 150 \<and>
           (k = 150 \<longleftrightarrow> waited e (Suc (Suc (length (sent s)))) 149 < 300000) \<and>
           (k = 150 \<longleftrightarrow>
              (\<Sum>i<149. took (remote e (Suc (Suc (length (sent s))) + i))) < 2000) \<and>
           ((\<forall>n \<ge> Suc (Suc (length (sent s))). took (remote e n) = 0) \<longrightarrow> k = 150) \<and>
           uploaded_files s' = dict_set (uploaded_files s) p
             \<lparr> info_uri = file_uri, info_name = name,
               info_mime_type = mime_type, info_size = file_size \<rparr> \<and>
           last (printed s') = warning_sign @ '' Processing timeout - continuing anyway'' \<and>
           conversation_history s' = conversation_history s"
  using assms by (rule upload_after_endless_processing)

theorem processing_timeout_is_soft_witness:
  "fst (upload_file_to_gemini (demo_env (upload_remote ''PROCESSING'' 0)) ''clip.mp4''
          demo_chat) =
     JObj [(''uri'', JStr ''https://files.example/abc''), (''mime_type'', JStr ''video/mp4'')] \<and>
   length (sent (snd (upload_file_to_gemini (demo_env (upload_remote ''PROCESSING'' 0))
                        ''clip.mp4'' demo_chat))) = 152 \<and>
   last (printed (snd (upload_file_to_gemini (demo_env (upload_remote ''PROCESSING'' 0))
                        ''clip.mp4'' demo_chat))) =
     warning_sign @ '' Processing timeout - continuing anyway'' \<and>
   length (sent (snd (upload_file_to_gemini (demo_env (upload_remote ''PROCESSING'' 13))
                        ''clip.mp4'' demo_chat))) = 152"
proof -
  have t: "truthy (JStr ''https://files.example/abc'')" "truthy (JStr ''files/abc'')"
    by simp_all
  have a: "session_opened ''https://upload.example/session/1''
             (remote (demo_env (upload_remote ''PROCESSING'' d)) (length (sent demo_chat)))" for d
    by (simp add: demo_clip demo_chat_fields upload_remote_answers)
  have b: "accepted (JStr ''https://files.example/abc'') (JStr ''files/abc'')
             (remote (demo_env (upload_remote ''PROCESSING'' d))
                (Suc (length (sent demo_chat))))" for d
    by (simp add: demo_clip demo_chat_fields upload_remote_answers)
  have c: "\<forall>n \<ge> Suc (Suc (length (sent demo_chat))).
             reports ''PROCESSING'' (remote (demo_env (upload_remote ''PROCESSING'' d)) n)" for d
    by (simp add: demo_clip demo_chat_fields upload_remote_answers)
  have z: "\<forall>n \<ge> Suc (Suc (length (sent demo_chat))).
             took (remote (demo_env (upload_remote ''PROCESSING'' 0)) n) = 0"
    by (simp add: demo_clip demo_chat_fields upload_remote_answers)
  have "\<forall>i. took (remote (demo_env (upload_remote ''PROCESSING'' 13))
                 (Suc (Suc (length (sent demo_chat))) + i)) = 13"
    by (simp add: demo_clip demo_chat_fields upload_remote_answers)
  then have "waited (demo_env (upload_remote ''PROCESSING'' 13))
               (Suc (Suc (length (sent demo_chat)))) 149 = 149 * (13 + 2000)"
    by (rule waited_constant)
  then have y: "waited (demo_env (upload_remote ''PROCESSING'' 13))
               (Suc (Suc (length (sent demo_chat)))) 149 < 300000"
    by simp
  have 1: "fst (upload_file_to_gemini (demo_env (upload_remote ''PROCESSING'' 0)) ''clip.mp4''
          demo_chat) =
     JObj [(''uri'', JStr ''https://files.example/abc''), (''mime_type'', JStr ''video/mp4'')] \<and>
   length (sent (snd (upload_file_to_gemini (demo_env (upload_remote ''PROCESSING'' 0))
                        ''clip.mp4'' demo_chat))) = 152 \<and>
   last (printed (snd (upload_file_to_gemini (demo_env (upload_remote ''PROCESSING'' 0))
                        ''clip.mp4'' demo_chat))) =
     warning_sign @ '' Processing timeout - continuing anyway''"
    using processing_timeout_is_soft [OF demo_uploadable a [of 0] b [of 0] t c [of 0]] z
    by (auto simp: demo_chat_fields)
  have 2: "length (sent (snd (upload_file_to_gemini (demo_env (upload_remote ''PROCESSING'' 13))
                        ''clip.mp4'' demo_chat))) = 152"
    using processing_timeout_is_soft [OF demo_uploadable a [of 13] b [of 13] t c [of 13]] y
    by (auto simp: demo_chat_fields)
  show ?thesis using 1 2 by blast
qed

text \<open>
  With status requests of one second each, the time is up after 100 polls.
\<close>

theorem polls_counterexample:
  "fst (wait_for_file_processing (demo_env (upload_remote ''PROCESSING'' 1000))
         (JStr ''files/abc'') 300
         (mid_state (demo_env (upload_remote ''PROCESSING'' 1000)) demo_chat ''clip.mp4''
            ''video/mp4'' 5242880 ''0123456789'' ''https://upload.example/session/1''
            (JStr ''https://files.example/abc'') (JStr ''files/abc''))) = TimedOut \<and>
   sent (snd (upload_file_to_gemini (demo_env (upload_remote ''PROCESSING'' 1000))
                ''clip.mp4'' demo_chat)) =
     [start_request demo_chat ''clip.mp4'' ''video/mp4'' 5242880,
      content_request ''https://upload.example/session/1'' 5242880 ''0123456789''] @
     replicate 100 (poll_request (demo_env (upload_remote ''PROCESSING'' 1000)) demo_chat
                      (JStr ''files/abc''))"
proof -
  let ?e = "demo_env (upload_remote ''PROCESSING'' 1000)"
  have a: "session_opened ''https://upload.example/session/1''
             (remote ?e (length (sent demo_chat)))"
    by (simp add: demo_clip demo_chat_fields upload_remote_answers)
  have b: "accepted (JStr ''https://files.example/abc'') (JStr ''files/abc'')
             (remote ?e (Suc (length (sent demo_chat))))"
    by (simp add: demo_clip demo_chat_fields upload_remote_answers)
  have c: "\<forall>n \<ge> Suc (Suc (length (sent demo_chat))).
             reports ''PROCESSING'' (remote ?e n) \<and> took (remote ?e n) = 1000"
    by (simp add: demo_clip demo_chat_fields upload_remote_answers)
  have t: "truthy (JStr ''https://files.example/abc'')" "truthy (JStr ''files/abc'')"
    by simp_all
  have j: "\<forall>j<100. j * (1000 + 2000) < 1000 * (300::nat)" by simp
  have k: "1000 * (300::nat) \<le> 100 * (1000 + 2000)" by simp
  from upload_after_processing_constant [OF demo_uploadable a b t c j k]
  show ?thesis by (simp add: demo_chat_fields)
qed

end
